theory Spec2Isabelle
  imports Complex_Main "HOL-Library.Log_Nat"
begin

section \<open>Stage-3 diagnostic plots and masked statistics: a shallow embedding\<close>

text \<open>
  The plotting module \<^verbatim>\<open>src/eureka/S3_data_reduction/plots_s3.py\<close> is embedded as
  functions that return the sequence of effects a routine performs (log lines, printed
  lines, calls into the rendering library, saved files, pauses) together with the
  exception that ended it, if any.  Python floats are idealised as real numbers.
  The two names the module imports from elsewhere, \<^verbatim>\<open>os.sep\<close> and
  \<^verbatim>\<open>figure_filetype\<close>, are parameters \<open>sep\<close> and \<open>figure_filetype\<close> of every routine.
\<close>

subsection \<open>Python values, errors and strings\<close>

datatype error = OverflowError | ValueError | IndexError

datatype pyval = PyNone | PyStr string | PyNum real | PyBool bool

definition digit_char :: "nat \<Rightarrow> char" where
  "digit_char d = ''0123456789'' ! d"

fun str_nat :: "nat \<Rightarrow> string" where
  "str_nat n = (if n < 10 then [digit_char n] else str_nat (n div 10) @ [digit_char (n mod 10)])"

declare str_nat.simps [simp del]

definition str_int :: "int \<Rightarrow> string" where
  \<comment> \<open>\<^verbatim>\<open>str(i)\<close> of a Python int\<close>
  "str_int i = (if i < 0 then CHR ''-'' # str_nat (nat (- i)) else str_nat (nat i))"

definition zfill :: "nat \<Rightarrow> string \<Rightarrow> string" where
  \<comment> \<open>\<^verbatim>\<open>s.zfill(width)\<close>: pads on the left with zeros, after a leading sign; a string
      that is already long enough is returned as it is\<close>
  "zfill width s =
     (if width \<le> length s then s
      else (case s of
              [] \<Rightarrow> replicate width CHR ''0''
            | c # rest \<Rightarrow>
                if c = CHR ''+'' \<or> c = CHR ''-''
                then c # replicate (width - length s) CHR ''0'' @ rest
                else replicate (width - length s) CHR ''0'' @ s))"

definition log10_width :: "int \<Rightarrow> error + nat" where
  \<comment> \<open>\<^verbatim>\<open>int(np.floor(np.log10(c))+1)\<close>: the logarithm of 0 is \<^verbatim>\<open>-inf\<close> and that of a
      negative number is \<^verbatim>\<open>nan\<close>, which \<^verbatim>\<open>int\<close> refuses\<close>
  "log10_width c =
     (if c = 0 then Inl OverflowError
      else if c < 0 then Inl ValueError
      else Inr (floorlog 10 (nat c)))"

definition zfill_number :: "int \<Rightarrow> int \<Rightarrow> error + string" where
  \<comment> \<open>\<^verbatim>\<open>str(i).zfill(int(np.floor(np.log10(c))+1))\<close>\<close>
  "zfill_number i c =
     (case log10_width c of Inl e \<Rightarrow> Inl e | Inr width \<Rightarrow> Inr (zfill width (str_int i)))"

subsection \<open>The metadata object and the effects of a routine\<close>

text \<open>
  An attribute that \<^verbatim>\<open>hasattr\<close> tests is an option: \<open>None\<close> when the object has no such
  attribute, \<open>Some PyNone\<close> when it is there with the value \<^verbatim>\<open>None\<close>.
\<close>

record meta =
  vmin :: "pyval option"
  vmax :: "pyval option"
  time_axis :: "pyval option"
  n_int :: int
  num_data_files :: int
  int_start :: int
  int_end :: int
  outputdir :: string
  hide_plots :: bool
  verbose :: bool

datatype event =
    Writelog string bool
  | Print string
  | Plt string string
  | Imshow "real option list list" "real option" "real option"
  | Savefig string
  | Pause real

text \<open>
  \<open>Writelog msg mute\<close> is \<^verbatim>\<open>log.writelog(msg, mute=mute)\<close>, \<open>Print\<close> is \<^verbatim>\<open>print\<close>,
  \<open>Plt f a\<close> is a call of the rendering library's \<open>f\<close> with its first argument or
  label \<open>a\<close>, \<open>Imshow img lo hi\<close> is \<^verbatim>\<open>imshow\<close> of a masked image (a masked pixel is
  \<open>None\<close>) with its colour limits, \<open>Savefig p\<close> is \<^verbatim>\<open>plt.savefig(p, dpi=300)\<close> and
  \<open>Pause d\<close> is \<^verbatim>\<open>plt.pause(d)\<close>.
\<close>

type_synonym run = "event list \<times> error option"

definition time_axis_warning :: string where
  "time_axis_warning =
     ''WARNING: meta.time_axis is not one of ['y', 'x']! Using 'y' by default.''"

subsection \<open>The routines without array statistics\<close>

text \<open>
  Each routine lists its calls in the order of the source.  The calls into
  \<^verbatim>\<open>util.normalize_spectrum\<close> and into the rendering library are taken to succeed, and
  the arrays they draw are not modelled; what can end a routine early here is the
  computation of a padding width.  \<^verbatim>\<open>tqdm\<close> only wraps the iterator of a loop.
\<close>

definition lc_nodriftcorr :: "string \<Rightarrow> string \<Rightarrow> meta \<Rightarrow> meta \<times> event list" where
  "lc_nodriftcorr sep figure_filetype meta0 =
     (let meta1 = (if vmin meta0 = None \<or> vmin meta0 = Some PyNone
                   then meta0\<lparr>vmin := Some (PyNum 0.97)\<rparr> else meta0);
          meta2 = (if vmax meta1 = None \<or> vmin meta1 = Some PyNone
                   then meta1\<lparr>vmax := Some (PyNum 1.03)\<rparr> else meta1);
          (meta3, printed) =
             (if time_axis meta2 = None \<or> time_axis meta2 = Some PyNone
              then (meta2\<lparr>time_axis := Some (PyStr ''y'')\<rparr>, [])
              else if time_axis meta2 \<notin> set [Some (PyStr ''y''), Some (PyStr ''x'')]
              then (meta2\<lparr>time_axis := Some (PyStr ''y'')\<rparr>, [Print time_axis_warning])
              else (meta2, []));
          fname = ''figs'' @ sep @ ''fig3101-2D_LC'' @ figure_filetype
      in (meta3,
          printed @ [Plt ''figure'' ''3101'', Plt ''clf'' []]
          @ (if time_axis meta3 = Some (PyStr ''y'')
             then [Plt ''imshow'' ''normspec'',
                   Plt ''ylabel'' ''Integration Number'',
                   Plt ''xlabel'' ''Wavelength'']
             else [Plt ''imshow'' ''normspec.swapaxes(0, 1)'',
                   Plt ''ylabel'' ''Wavelength'',
                   Plt ''xlabel'' ''Integration Number''])
          @ [Plt ''title'' ''MAD'', Plt ''colorbar'' ''Normalized Flux'',
             Plt ''tight_layout'' [], Savefig (outputdir meta3 @ fname)]
          @ (if \<not> hide_plots meta3 then [Pause 0.2] else [])))"

definition drift_2D :: "string \<Rightarrow> string \<Rightarrow> meta \<Rightarrow> run" where
  "drift_2D sep figure_filetype meta =
     (let fname = ''figs'' @ sep @ ''fig3105_Drift2D'' @ figure_filetype
      in ([Plt ''figure'' ''3105'', Plt ''clf'' [], Plt ''subplot'' ''211'',
           Plt ''plot'' ''drift2D[iscans, 1]'', Plt ''plot'' ''drift2D[iscans, 1]'',
           Plt ''ylabel'' ''Drift Along y'', Plt ''subplot'' ''212'',
           Plt ''plot'' ''drift2D[iscans, 0]'', Plt ''plot'' ''drift2D[iscans, 0]'',
           Plt ''ylabel'' ''Drift Along x'', Plt ''xlabel'' ''Integration Number'',
           Plt ''tight_layout'' [], Savefig (outputdir meta @ fname)]
          @ (if \<not> hide_plots meta then [Pause 0.2] else []), None))"

definition optimal_spectrum :: "string \<Rightarrow> string \<Rightarrow> meta \<Rightarrow> int \<Rightarrow> int \<Rightarrow> run" where
  "optimal_spectrum sep figure_filetype meta n m =
     (let drawn = [Plt ''figure'' ''3302'', Plt ''clf'' [],
                   Plt ''suptitle'' ''1D Spectrum - Integration'',
                   Plt ''semilogy'' ''stdspec[n]'', Plt ''errorbar'' ''optspec[n]'',
                   Plt ''ylabel'' ''Flux'', Plt ''xlabel'' ''Detector Pixel Position'',
                   Plt ''legend'' ''best'', Plt ''tight_layout'' []]
      in case zfill_number m (num_data_files meta) of
           Inl e \<Rightarrow> (drawn, Some e)
         | Inr file_number \<Rightarrow>
            (case zfill_number n (n_int meta) of
               Inl e \<Rightarrow> (drawn, Some e)
             | Inr int_number \<Rightarrow>
                (let fname = ''figs'' @ sep @ ''fig3302_file'' @ file_number
                             @ ''_int'' @ int_number @ ''_Spectrum'' @ figure_filetype
                 in (drawn @ [Savefig (outputdir meta @ fname)]
                     @ (if \<not> hide_plots meta then [Pause 0.2] else []), None))))"

definition source_position ::
  "string \<Rightarrow> string \<Rightarrow> meta \<Rightarrow> int \<Rightarrow> int \<Rightarrow> bool \<Rightarrow> bool \<Rightarrow> run" where
  "source_position sep figure_filetype meta m n isgauss isFWM =
     (let drawn = [Plt ''figure'' ''3102'', Plt ''clf'' [], Plt ''plot'' ''Data'']
                  @ (if isgauss
                     then [Plt ''plot'' ''Gaussian Fit'', Plt ''axvline'' ''Gaussian Center'',
                           Plt ''xlim'' ''pos_max'']
                     else if isFWM then [Plt ''axvline'' ''Weighted Row''] else [])
                  @ [Plt ''axvline'' ''Brightest Row'', Plt ''ylabel'' ''Row Flux'',
                     Plt ''xlabel'' ''Row Pixel Position'', Plt ''legend'' [],
                     Plt ''tight_layout'' []]
      in case zfill_number m (num_data_files meta) of
           Inl e \<Rightarrow> (drawn, Some e)
         | Inr file_number \<Rightarrow>
            (case zfill_number n (n_int meta) of
               Inl e \<Rightarrow> (drawn, Some e)
             | Inr int_number \<Rightarrow>
                (let fname = ''figs'' @ sep @ ''fig3102_file'' @ file_number
                             @ ''_int'' @ int_number @ ''_source_pos'' @ figure_filetype
                 in (drawn @ [Savefig (outputdir meta @ fname)]
                     @ (if \<not> hide_plots meta then [Pause 0.2] else []), None))))"

definition profile :: "string \<Rightarrow> string \<Rightarrow> meta \<Rightarrow> int \<Rightarrow> int \<Rightarrow> run" where
  "profile sep figure_filetype meta n m =
     (let drawn = [Plt ''figure'' ''3303'', Plt ''clf'' [],
                   Plt ''suptitle'' ''Profile - Integration'',
                   Plt ''imshow'' ''profile*submask'',
                   Plt ''ylabel'' ''Relative Pixel Position'',
                   Plt ''xlabel'' ''Relative Pixel Position'', Plt ''tight_layout'' []]
      in case zfill_number m (num_data_files meta) of
           Inl e \<Rightarrow> (drawn, Some e)
         | Inr file_number \<Rightarrow>
            (case zfill_number n (n_int meta) of
               Inl e \<Rightarrow> (drawn, Some e)
             | Inr int_number \<Rightarrow>
                (let fname = ''figs'' @ sep @ ''fig3303_file'' @ file_number
                             @ ''_int'' @ int_number @ ''_Profile'' @ figure_filetype
                 in (drawn @ [Savefig (outputdir meta @ fname)]
                     @ (if \<not> hide_plots meta then [Pause 0.2] else []), None))))"

definition subdata :: "string \<Rightarrow> string \<Rightarrow> meta \<Rightarrow> int \<Rightarrow> int \<Rightarrow> int \<Rightarrow> int \<Rightarrow> run" where
  \<comment> \<open>\<open>nx\<close> is the second component of \<^verbatim>\<open>subdata.shape\<close>\<close>
  "subdata sep figure_filetype meta i n m nx =
     (let drawn = [Plt ''figure'' ''3501'', Plt ''clf'' [],
                   Plt ''suptitle'' ''Integration, Columns'',
                   Plt ''plot'' ''subdata'', Plt ''plot'' ''expected'', Plt ''plot'' ''loc'']
      in case zfill_number m (num_data_files meta) of
           Inl e \<Rightarrow> (drawn, Some e)
         | Inr file_number \<Rightarrow>
            (case zfill_number n (n_int meta) of
               Inl e \<Rightarrow> (drawn, Some e)
             | Inr int_number \<Rightarrow>
                (case zfill_number i nx of
                   Inl e \<Rightarrow> (drawn, Some e)
                 | Inr col_number \<Rightarrow>
                    (let fname = ''figs'' @ sep @ ''fig3501_file'' @ file_number
                                 @ ''_int'' @ int_number
                                 @ ''_col'' @ col_number @ ''_subdata'' @ figure_filetype
                     in (drawn @ [Savefig (outputdir meta @ fname)]
                         @ (if \<not> hide_plots meta then [Pause 0.1] else []), None)))))"

definition driftypos :: "string \<Rightarrow> string \<Rightarrow> meta \<Rightarrow> run" where
  "driftypos sep figure_filetype meta =
     (let fname = ''figs'' @ sep @ ''fig3103_DriftYPos'' @ figure_filetype
      in ([Plt ''figure'' ''3103'', Plt ''clf'' [], Plt ''plot'' ''driftypos'',
           Plt ''ylabel'' ''Spectrum spatial profile center'',
           Plt ''xlabel'' ''Integration Number'', Plt ''tight_layout'' [],
           Savefig (outputdir meta @ fname)]
          @ (if \<not> hide_plots meta then [Pause 0.2] else []), None))"

definition driftywidth :: "string \<Rightarrow> string \<Rightarrow> meta \<Rightarrow> run" where
  "driftywidth sep figure_filetype meta =
     (let fname = ''figs'' @ sep @ ''fig3104_DriftYWidth'' @ figure_filetype
      in ([Plt ''figure'' ''3104'', Plt ''clf'' [], Plt ''plot'' ''driftywidth'',
           Plt ''ylabel'' ''Spectrum spatial profile width'',
           Plt ''xlabel'' ''Integration Number'', Plt ''tight_layout'' [],
           Savefig (outputdir meta @ fname)]
          @ (if \<not> hide_plots meta then [Pause 0.2] else []), None))"

definition curvature :: "string \<Rightarrow> string \<Rightarrow> meta \<Rightarrow> run" where
  "curvature sep figure_filetype meta =
     (let fname = ''figs'' @ sep @ ''fig3106_Curvature'' @ figure_filetype
      in ([Plt ''figure'' ''3106'', Plt ''clf'' [], Plt ''title'' ''Trace Curvature'',
           Plt ''plot'' ''Measured'', Plt ''plot'' ''Smoothed'', Plt ''plot'' ''Integer'',
           Plt ''legend'' [], Plt ''ylabel'' ''Relative Pixel Position'',
           Plt ''xlabel'' ''Relative Pixel Position'', Plt ''tight_layout'' [],
           Savefig (outputdir meta @ fname)]
          @ (if \<not> hide_plots meta then [Pause 0.1] else []), None))"

definition median_frame :: "string \<Rightarrow> string \<Rightarrow> meta \<Rightarrow> run" where
  "median_frame sep figure_filetype meta =
     (let fname = ''figs'' @ sep @ ''fig3401_MedianFrame'' @ figure_filetype
      in ([Plt ''figure'' ''3401'', Plt ''clf'' [], Plt ''title'' ''Cleaned Median Frame'',
           Plt ''imshow'' ''medflux'', Plt ''ylabel'' ''Detector Pixel Position'',
           Plt ''xlabel'' ''Detector Pixel Position'', Plt ''tight_layout'' [],
           Savefig (outputdir meta @ fname)]
          @ (if \<not> hide_plots meta then [Pause 0.1] else []), None))"

subsection \<open>Masked arrays and their statistics\<close>

text \<open>
  A masked array pairs every value with its mask bit; the bit \<open>True\<close> hides the value
  (numpy's convention).  \<^verbatim>\<open>np.ma.median\<close> and \<^verbatim>\<open>np.ma.std\<close> work on the values that
  are not hidden and return the masked constant, here \<open>None\<close>, when there is none.
  Pixel values are taken to be finite.
\<close>

record dataset =
  flux_values :: "real list list list"
  mask_values :: "bool list list list"
  bg_values :: "real list list list"
  intstart :: int

type_synonym masked_array = "(real \<times> bool) list list list"

definition invert :: "bool list list list \<Rightarrow> bool list list list" where
  \<comment> \<open>the operator \<^verbatim>\<open>~\<close> on a boolean array\<close>
  "invert a = map (map (map Not)) a"

definition masked_where :: "bool list list list \<Rightarrow> real list list list \<Rightarrow> masked_array" where
  "masked_where condition a = map2 (map2 zip) a condition"

definition compressed :: "(real \<times> bool) list \<Rightarrow> real list" where
  "compressed ps = map fst (filter (\<lambda>p. \<not> snd p) ps)"

definition median :: "real list \<Rightarrow> real" where
  \<comment> \<open>the middle of the sorted values, the mean of the two middle ones for an even count\<close>
  "median xs =
     (let s = sort xs; n = length s
      in if odd n then s ! (n div 2) else (s ! (n div 2 - 1) + s ! (n div 2)) / 2)"

definition mean :: "real list \<Rightarrow> real" where
  "mean xs = sum_list xs / real (length xs)"

definition std_population :: "real list \<Rightarrow> real" where
  \<comment> \<open>\<^verbatim>\<open>std\<close> with its default \<^verbatim>\<open>ddof=0\<close>\<close>
  "std_population xs = sqrt (sum_list (map (\<lambda>x. (x - mean xs)\<^sup>2) xs) / real (length xs))"

definition ma_median_1d :: "(real \<times> bool) list \<Rightarrow> real option" where
  "ma_median_1d ps = (case compressed ps of [] \<Rightarrow> None | x # xs \<Rightarrow> Some (median (x # xs)))"

definition ma_median :: "masked_array \<Rightarrow> real option" where
  \<comment> \<open>\<^verbatim>\<open>np.ma.median(a)\<close>, over the flattened array\<close>
  "ma_median a = ma_median_1d (concat (concat a))"

definition ma_std :: "masked_array \<Rightarrow> real option" where
  \<comment> \<open>\<^verbatim>\<open>np.ma.std(a)\<close>, over the flattened array\<close>
  "ma_std a =
     (case compressed (concat (concat a)) of
        [] \<Rightarrow> None | x # xs \<Rightarrow> Some (std_population (x # xs)))"

definition ma_median_axis0 :: "masked_array \<Rightarrow> real option list list" where
  \<comment> \<open>\<^verbatim>\<open>np.ma.median(a, axis=0)\<close>: one median per pixel, over the integrations\<close>
  "ma_median_axis0 a =
     (case a of
        [] \<Rightarrow> []
      | frame0 # _ \<Rightarrow>
          map (\<lambda>y. map (\<lambda>x. ma_median_1d (map (\<lambda>frame. frame ! y ! x) a))
                       [0..<length (frame0 ! y)])
              [0..<length frame0])"

definition shown :: "(real \<times> bool) list list \<Rightarrow> real option list list" where
  \<comment> \<open>what \<^verbatim>\<open>imshow\<close> gets from a masked frame: hidden pixels are drawn in the
      colour map's colour for bad values\<close>
  "shown frame = map (map (\<lambda>(v, hidden). if hidden then None else Some v)) frame"

subsection \<open>The routines with array statistics\<close>

fun image_and_background_loop ::
  "string \<Rightarrow> string \<Rightarrow> meta \<Rightarrow> int \<Rightarrow> masked_array \<Rightarrow> masked_array
     \<Rightarrow> real option \<Rightarrow> real option \<Rightarrow> nat list \<Rightarrow> run" where
  "image_and_background_loop sep figure_filetype meta m frames bgframes med sd [] = ([], None)"
| "image_and_background_loop sep figure_filetype meta m frames bgframes med sd (n # ns) =
     (let upper = [Plt ''figure'' ''3301'', Plt ''clf'' [], Plt ''suptitle'' ''Integration'',
                   Plt ''subplot'' ''211'', Plt ''title'' ''Background-Subtracted Frame'']
      in if length frames \<le> n then (upper, Some IndexError)
         else
          (let lower = upper
                 @ [Imshow (shown (frames ! n)) (Some (- 200)) (Some 1000),
                    Plt ''colorbar'' [], Plt ''ylabel'' ''Detector Pixel Position'',
                    Plt ''subplot'' ''212'', Plt ''title'' ''Subtracted Background'']
           in if length bgframes \<le> n then (lower, Some IndexError)
              else
               (let drawn = lower
                      @ [Imshow (shown (bgframes ! n))
                           (case (med, sd) of
                              (Some md, Some s) \<Rightarrow> Some (md - 3 * s) | _ \<Rightarrow> None)
                           (case (med, sd) of
                              (Some md, Some s) \<Rightarrow> Some (md + 3 * s) | _ \<Rightarrow> None),
                         Plt ''colorbar'' [], Plt ''ylabel'' ''Detector Pixel Position'',
                         Plt ''xlabel'' ''Detector Pixel Position'', Plt ''tight_layout'' []]
                in case zfill_number m (num_data_files meta) of
                     Inl e \<Rightarrow> (drawn, Some e)
                   | Inr file_number \<Rightarrow>
                      (case zfill_number (int n) (n_int meta) of
                         Inl e \<Rightarrow> (drawn, Some e)
                       | Inr int_number \<Rightarrow>
                          (let fname = ''figs'' @ sep @ ''fig3301_file'' @ file_number
                                       @ ''_int'' @ int_number
                                       @ ''_ImageAndBackground'' @ figure_filetype;
                               (later, raised) =
                                  image_and_background_loop sep figure_filetype meta m
                                    frames bgframes med sd ns
                           in (drawn @ [Savefig (outputdir meta @ fname)]
                               @ (if \<not> hide_plots meta then [Pause 0.2] else [])
                               @ later, raised))))))"

definition image_and_background :: "string \<Rightarrow> string \<Rightarrow> dataset \<Rightarrow> meta \<Rightarrow> int \<Rightarrow> run" where
  "image_and_background sep figure_filetype data meta m =
     (let subdata = masked_where (invert (mask_values data)) (flux_values data);
          subbg = masked_where (invert (mask_values data)) (bg_values data);
          median = ma_median subbg;
          std = ma_std subbg;
          iterfn = [0..<nat (int_end meta - int_start meta)];
          (evs, raised) =
             image_and_background_loop sep figure_filetype meta m subdata subbg median std iterfn
      in (Writelog ''  Creating figures for background subtraction...'' (\<not> verbose meta) # evs,
          raised))"

definition residualBackground ::
  "string \<Rightarrow> string \<Rightarrow> dataset \<Rightarrow> meta \<Rightarrow> int \<Rightarrow> real \<Rightarrow> real \<Rightarrow> run" where
  "residualBackground sep figure_filetype data meta m vmin' vmax' =
     (let subdata = masked_where (invert (mask_values data)) (flux_values data);
          flux = ma_median_axis0 subdata;
          drawn = [Plt ''figure'' ''3304'', Plt ''clf'' [], Plt ''subplots'' ''3304'',
                   Imshow flux (Some vmin') (Some vmax'),
                   Plt ''a0.hlines'' ''bg'', Plt ''a0.hlines'' ''ap'',
                   Plt ''a0.set_ylabel'' ''Detector Pixel Position'',
                   Plt ''a0.set_xlabel'' ''Detector Pixel Position'',
                   Plt ''a1.scatter'' ''flux_hr'', Plt ''a1.vlines'' ''0'',
                   Plt ''a1.hlines'' ''bg'', Plt ''a1.hlines'' ''ap'',
                   Plt ''a1.legend'' ''upper right'', Plt ''a1.set_xlabel'' ''Flux [e-]'',
                   Plt ''a1.set_xlim'' [], Plt ''a1.set_ylim'' [],
                   Plt ''a1.set_yticklabels'' [], Plt ''a1.set_xticks'' [],
                   Plt ''fig.colorbar'' [], Plt ''fig.subplots_adjust'' []]
      in case zfill_number m (num_data_files meta) of
           Inl e \<Rightarrow> (drawn, Some e)
         | Inr file_number \<Rightarrow>
            (let fname = ''figs'' @ sep @ ''fig3304_file'' @ file_number
                         @ ''_ResidualBG'' @ figure_filetype
             in (drawn @ [Savefig (outputdir meta @ fname)]
                 @ (if \<not> hide_plots meta then [Pause 0.1] else []), None)))"

subsection \<open>Reading a run\<close>

fun saved :: "event list \<Rightarrow> string list" where
  \<comment> \<open>the paths given to \<^verbatim>\<open>savefig\<close>, in order\<close>
  "saved [] = []"
| "saved (Savefig p # es) = p # saved es"
| "saved (e # es) = saved es"


fun pauses :: "event list \<Rightarrow> real list" where
  "pauses [] = []"
| "pauses (Pause d # es) = d # pauses es"
| "pauses (e # es) = pauses es"

fun pause_follows_save :: "bool \<Rightarrow> event list \<Rightarrow> bool" where
  \<comment> \<open>every pause comes directly after a \<^verbatim>\<open>savefig\<close>; the flag says whether the event
      before the list was one\<close>
  "pause_follows_save after_save [] = True"
| "pause_follows_save after_save (Pause d # es) = (after_save \<and> pause_follows_save False es)"
| "pause_follows_save after_save (Savefig p # es) = pause_follows_save True es"
| "pause_follows_save after_save (e # es) = pause_follows_save False es"

fun printed :: "event list \<Rightarrow> string list" where
  \<comment> \<open>the lines given to \<^verbatim>\<open>print\<close>, in order\<close>
  "printed [] = []"
| "printed (Print s # es) = s # printed es"
| "printed (e # es) = printed es"

fun logged :: "event list \<Rightarrow> string list" where
  \<comment> \<open>the lines given to \<^verbatim>\<open>log.writelog\<close>, in order\<close>
  "logged [] = []"
| "logged (Writelog s mute # es) = s # logged es"
| "logged (e # es) = logged es"


definition single_figure_routines ::
  "string \<Rightarrow> string \<Rightarrow> dataset \<Rightarrow> meta \<Rightarrow> int \<Rightarrow> int \<Rightarrow> int \<Rightarrow> int \<Rightarrow> bool \<Rightarrow> bool
     \<Rightarrow> real \<Rightarrow> real \<Rightarrow> run list" where
  \<comment> \<open>the runs of the eleven routines that have no loop, on column \<open>i\<close>, integration
      \<open>n\<close> and file \<open>m\<close>\<close>
  "single_figure_routines sep figure_filetype data meta i n m nx isgauss isFWM lo hi =
     [(snd (lc_nodriftcorr sep figure_filetype meta), None),
      drift_2D sep figure_filetype meta,
      optimal_spectrum sep figure_filetype meta n m,
      source_position sep figure_filetype meta m n isgauss isFWM,
      profile sep figure_filetype meta n m,
      subdata sep figure_filetype meta i n m nx,
      driftypos sep figure_filetype meta,
      driftywidth sep figure_filetype meta,
      residualBackground sep figure_filetype data meta m lo hi,
      curvature sep figure_filetype meta,
      median_frame sep figure_filetype meta]"

definition plotting_routines ::
  "string \<Rightarrow> string \<Rightarrow> dataset \<Rightarrow> meta \<Rightarrow> int \<Rightarrow> int \<Rightarrow> int \<Rightarrow> int \<Rightarrow> bool \<Rightarrow> bool
     \<Rightarrow> real \<Rightarrow> real \<Rightarrow> run list" where
  \<comment> \<open>the runs of all twelve routines of the module\<close>
  "plotting_routines sep figure_filetype data meta i n m nx isgauss isFWM lo hi =
     image_and_background sep figure_filetype data meta m
     # single_figure_routines sep figure_filetype data meta i n m nx isgauss isFWM lo hi"

subsection \<open>The naming scheme, as the specification words it\<close>

definition zero_padded :: "int \<Rightarrow> int \<Rightarrow> string" where
  \<comment> \<open>index \<open>i\<close> padded with zeros to the number of decimal digits of the count \<open>c\<close>\<close>
  "zero_padded c i = zfill (floorlog 10 (nat c)) (str_int i)"

definition figure_path ::
  "string \<Rightarrow> string \<Rightarrow> string \<Rightarrow> string option \<Rightarrow> string option \<Rightarrow> string option
     \<Rightarrow> string \<Rightarrow> string \<Rightarrow> string" where
  \<comment> \<open>\<^verbatim>\<open><output_dir>/figs/fig<NNNN>[_file<F>][_int<I>][_col<C>]_<Label><ext>\<close>, with
      \<open>sep\<close> for the slash\<close>
  "figure_path output_dir sep tag file_part int_part col_part label ext =
     output_dir @ sep @ ''figs'' @ sep @ ''fig'' @ tag
     @ (case file_part of None \<Rightarrow> [] | Some F \<Rightarrow> ''_file'' @ F)
     @ (case int_part of None \<Rightarrow> [] | Some I \<Rightarrow> ''_int'' @ I)
     @ (case col_part of None \<Rightarrow> [] | Some C \<Rightarrow> ''_col'' @ C)
     @ ''_'' @ label @ ext"

definition underscore_after_tag :: "string \<Rightarrow> string \<Rightarrow> string \<Rightarrow> bool" where
  \<comment> \<open>in a path of the scheme, the character after the four characters of the tag is
      an underscore, whichever of the optional parts are there\<close>
  "underscore_after_tag output_dir sep p =
     (let k = length (output_dir @ sep @ ''figs'' @ sep @ ''fig'') + 4
      in k < length p \<and> p ! k = CHR ''_'')"

definition fig3301_path :: "string \<Rightarrow> string \<Rightarrow> meta \<Rightarrow> int \<Rightarrow> nat \<Rightarrow> string" where
  \<comment> \<open>the file of \<open>image_and_background\<close> for file \<open>m\<close> and integration \<open>n\<close>\<close>
  "fig3301_path sep figure_filetype meta m n =
     outputdir meta @ ''figs'' @ sep @ ''fig3301_file'' @ zero_padded (num_data_files meta) m
     @ ''_int'' @ zero_padded (n_int meta) (int n) @ ''_ImageAndBackground'' @ figure_filetype"


definition example_meta :: "int \<Rightarrow> int \<Rightarrow> bool \<Rightarrow> pyval option \<Rightarrow> meta" where
  \<comment> \<open>a run with output directory \<^verbatim>\<open>out/\<close> and two integrations to plot\<close>
  "example_meta files ints hide axis =
     \<lparr>vmin = None, vmax = None, time_axis = axis, n_int = ints, num_data_files = files,
      int_start = 0, int_end = 2, outputdir = ''out/'', hide_plots = hide, verbose = False\<rparr>"

definition example_data :: dataset where
  \<comment> \<open>two integrations of one row of two pixels; the second pixel of the first
      integration is flagged as bad\<close>
  "example_data =
     \<lparr>flux_values = [[[10, 20]], [[30, 40]]],
      mask_values = [[[True, False]], [[True, True]]],
      bg_values = [[[1, 2]], [[3, 5]]],
      intstart = 0\<rparr>"

subsection \<open>Shapes and the pixels a dataset marks as good\<close>

definition has_shape :: "nat \<Rightarrow> nat \<Rightarrow> nat \<Rightarrow> 'a list list list \<Rightarrow> bool" where
  "has_shape nint ny nx a =
     (length a = nint
      \<and> list_all (\<lambda>frame. length frame = ny \<and> list_all (\<lambda>row. length row = nx) frame) a)"




subsection \<open>The masked median and standard deviation\<close>

text \<open>
  Modelled from the spec: \<^verbatim>\<open>eureka.lib.medstddev.medstddev\<close> is called by
  \<^verbatim>\<open>src/tests/test_general.py\<close> and is not among the sources.  The definitions
  \<open>effective_mask\<close>, \<open>good_values\<close>, \<open>medstddev_pair\<close> and \<open>medstddev\<close> follow steps 1 to
  6 of section 4.1 of the specification.  The sense of the explicit mask is the one
  that the test fixes by its expected values: with values \<open>1,3,4,5,6,7,7\<close> and mask
  \<open>1,1,1,0,0,0,0\<close> the expected median is 3, the median of the samples whose entry is 1.
  A mask entry is a \<open>bool\<close>, \<open>True\<close> for a true or 1 entry.  A float is a real number or
  one of the three values that are not finite.
\<close>

datatype fval = Fin real | PInf | NInf | NaN

fun isfinite :: "fval \<Rightarrow> bool" where
  "isfinite (Fin r) = True"
| "isfinite v = False"

datatype medstddev_result = Std fval | StdMed fval fval

definition effective_mask :: "fval list \<Rightarrow> bool list option \<Rightarrow> bool list" where
  \<comment> \<open>Modelled from the spec: step 1, the explicit mask (all good when there is none)
      combined with finiteness; \<open>True\<close> marks a good sample\<close>
  "effective_mask data msk =
     map2 (\<lambda>m v. m \<and> isfinite v)
       (case msk of None \<Rightarrow> replicate (length data) True | Some ms \<Rightarrow> ms) data"

definition good_values :: "fval list \<Rightarrow> bool list \<Rightarrow> real list" where
  \<comment> \<open>Modelled from the spec: the values of the good samples, in order\<close>
  "good_values data good =
     List.map_filter (\<lambda>(v, g). case v of Fin r \<Rightarrow> if g then Some r else None | _ \<Rightarrow> None)
       (zip data good)"

definition medstddev_pair :: "fval list \<Rightarrow> bool list option \<Rightarrow> fval \<times> fval" where
  \<comment> \<open>Modelled from the spec: steps 2 to 5, the pair (standard deviation, median)\<close>
  "medstddev_pair data msk =
     (let good = effective_mask data msk;
          n_good = length (filter (\<lambda>g. g) good);
          values = good_values data good
      in if n_good = 0 then (NaN, NaN)
         else if n_good = 1 then (Fin 0, Fin (hd values))
         else (let med = median values
               in (Fin (sqrt (sum_list (map (\<lambda>x. (x - med)\<^sup>2) values) / (real n_good - 1))),
                   Fin med)))"

definition medstddev :: "fval list \<Rightarrow> bool list option \<Rightarrow> bool \<Rightarrow> medstddev_result" where
  \<comment> \<open>Modelled from the spec: step 6, the median is returned when \<open>medi\<close> asks for it\<close>
  "medstddev data msk medi =
     (let (std, med) = medstddev_pair data msk in if medi then StdMed std med else Std std)"

definition accepted :: "fval list \<Rightarrow> bool list option \<Rightarrow> bool" where
  \<comment> \<open>an explicit mask has the shape of the data\<close>
  "accepted data msk = (case msk of None \<Rightarrow> True | Some ms \<Rightarrow> length ms = length data)"

definition n_good :: "fval list \<Rightarrow> bool list option \<Rightarrow> nat" where
  "n_good data msk = length (filter (\<lambda>g. g) (effective_mask data msk))"

definition finite_values :: "fval list \<Rightarrow> real list" where
  "finite_values data = List.map_filter (\<lambda>v. case v of Fin r \<Rightarrow> Some r | _ \<Rightarrow> None) data"

definition statistics :: "real list \<Rightarrow> fval \<times> fval" where
  \<comment> \<open>the pair of \<open>medstddev_pair\<close> as a function of the good values\<close>
  "statistics vs =
     (if length vs = 0 then (NaN, NaN)
      else if length vs = 1 then (Fin 0, Fin (hd vs))
      else (Fin (sqrt (sum_list (map (\<lambda>x. (x - median vs)\<^sup>2) vs) / (real (length vs) - 1))),
            Fin (median vs)))"

definition samples_marked_finite :: "fval list \<Rightarrow> bool list \<Rightarrow> fval list" where
  \<comment> \<open>the samples whose mask entry is true or 1 and whose value is finite\<close>
  "samples_marked_finite data ms = map fst (filter (\<lambda>(v, m). m \<and> isfinite v) (zip data ms))"

definition samples_unmarked_finite :: "fval list \<Rightarrow> bool list \<Rightarrow> fval list" where
  \<comment> \<open>the samples whose mask entry is false or 0 and whose value is finite\<close>
  "samples_unmarked_finite data ms = map fst (filter (\<lambda>(v, m). \<not> m \<and> isfinite v) (zip data ms))"

subsection \<open>The test of the statistics routine\<close>

text \<open>
  \<^verbatim>\<open>test_medstddev\<close> of \<^verbatim>\<open>src/tests/test_general.py\<close>, as a predicate on the function
  that it tests.  \<^verbatim>\<open>np.testing.assert_allclose\<close> compares with its default relative
  tolerance \<open>1e-7\<close> and no absolute tolerance.
\<close>

definition assert_allclose :: "medstddev_result \<Rightarrow> real \<times> real \<Rightarrow> bool" where
  "assert_allclose actual desired =
     (case actual of
        StdMed (Fin a) (Fin b) \<Rightarrow>
           \<bar>a - fst desired\<bar> \<le> (1 / 10 ^ 7) * \<bar>fst desired\<bar>
           \<and> \<bar>b - snd desired\<bar> \<le> (1 / 10 ^ 7) * \<bar>snd desired\<bar>
      | _ \<Rightarrow> False)"

definition test_medstddev ::
  "(fval list \<Rightarrow> bool list option \<Rightarrow> bool \<Rightarrow> medstddev_result) \<Rightarrow> bool" where
  "test_medstddev f =
     (let a = map Fin [1, 3, 4, 5, 6, 7, 7];
          plain = assert_allclose (f a None True) (2.2360679775, 5.0);
          mask1 = [True, True, True, False, False, False, False];
          masked = assert_allclose (f a (Some mask1) True) (1.58113883008, 3.0);
          a2 = [NaN, Fin 1, Fin 4, PInf, Fin 6];
          invalid = assert_allclose (f a2 None True) (2.5495097567963922, 4.0);
          a3 = map Fin [1, 4, 6];
          mask3 = [False, False, True];
          one_value = (f a3 (Some mask3) True = StdMed (Fin 0) (Fin 6));
          mask4 = mask3[2 := False];
          no_value = (f a3 (Some mask4) True = StdMed NaN NaN)
      in plain \<and> masked \<and> invalid \<and> one_value \<and> no_value)"

section \<open>Auxiliary facts\<close>

subsection \<open>Decimal strings and padding\<close>















lemma floorlog_log10: "0 < c \<Longrightarrow> int (floorlog 10 (nat c)) = \<lfloor>log 10 (real_of_int c)\<rfloor> + 1"
  by (simp add: floorlog_def)


subsection \<open>The files a routine saves\<close>

lemma zfill_number_eq:
  "zfill_number i c =
     (if c = 0 then Inl OverflowError else if c < 0 then Inl ValueError
      else Inr (zero_padded c i))"
  by (simp add: zfill_number_def log10_width_def zero_padded_def)

lemma saved_append: "saved (xs @ ys) = saved xs @ saved ys"
  by (induction xs rule: saved.induct) simp_all

lemma saved_lc_nodriftcorr:
  "saved (snd (lc_nodriftcorr sep ft meta)) = [outputdir meta @ ''figs'' @ sep @ ''fig3101-2D_LC'' @ ft]"
  by (simp add: lc_nodriftcorr_def Let_def case_prod_beta saved_append)

lemma saved_drift_2D:
  "drift_2D sep ft meta = (es, r) \<Longrightarrow> r = None \<and> saved es = [outputdir meta @ ''figs'' @ sep @ ''fig3105_Drift2D'' @ ft]"
  by (auto simp add: drift_2D_def Let_def saved_append)

lemma saved_optimal_spectrum:
  "saved (fst (optimal_spectrum sep ft meta n m)) =
     (if 0 < num_data_files meta \<and> 0 < n_int meta
      then [outputdir meta @ ''figs'' @ sep @ ''fig3302_file'' @ zero_padded (num_data_files meta) m
            @ ''_int'' @ zero_padded (n_int meta) n @ ''_Spectrum'' @ ft]
      else [])"
  by (simp add: optimal_spectrum_def Let_def zfill_number_eq saved_append)

lemma returns_optimal_spectrum:
  "snd (optimal_spectrum sep ft meta n m) = None \<longleftrightarrow> 0 < num_data_files meta \<and> 0 < n_int meta"
  by (simp add: optimal_spectrum_def Let_def zfill_number_eq)

lemma saved_subdata:
  "saved (fst (subdata sep ft meta i n m nx)) =
     (if 0 < num_data_files meta \<and> 0 < n_int meta \<and> 0 < nx
      then [outputdir meta @ ''figs'' @ sep @ ''fig3501_file'' @ zero_padded (num_data_files meta) m
            @ ''_int'' @ zero_padded (n_int meta) n @ ''_col'' @ zero_padded nx i @ ''_subdata'' @ ft]
      else [])"
  by (simp add: subdata_def Let_def zfill_number_eq saved_append)

lemma saved_source_position:
  "saved (fst (source_position sep ft meta m n g f)) =
     (if 0 < num_data_files meta \<and> 0 < n_int meta
      then [outputdir meta @ ''figs'' @ sep @ ''fig3102_file'' @ zero_padded (num_data_files meta) m
            @ ''_int'' @ zero_padded (n_int meta) n @ ''_source_pos'' @ ft]
      else [])"
  by (simp add: source_position_def Let_def zfill_number_eq saved_append)

lemma saved_residualBackground:
  "saved (fst (residualBackground sep ft data meta m lo hi)) =
     (if 0 < num_data_files meta
      then [outputdir meta @ ''figs'' @ sep @ ''fig3304_file'' @ zero_padded (num_data_files meta) m
            @ ''_ResidualBG'' @ ft]
      else [])"
  by (simp add: residualBackground_def Let_def zfill_number_eq saved_append)

lemma saved_loop_subset:
  "set (saved (fst (image_and_background_loop sep ft meta m frames bgframes med sd ns)))
     \<subseteq> fig3301_path sep ft meta m ` set ns"
  by (induction ns) (auto simp add: Let_def case_prod_beta zfill_number_eq saved_append fig3301_path_def)





subsection \<open>Masked arrays of a dataset\<close>

lemma has_shape_nth:
  "has_shape nint ny nx a \<Longrightarrow> n < nint \<Longrightarrow> y < ny \<Longrightarrow>
     length a = nint \<and> length (a ! n) = ny \<and> length (a ! n ! y) = nx"
  by (auto simp: has_shape_def list_all_length)

lemma masked_where_invert:
  "masked_where (invert c) a = map (map (map (\<lambda>(v, b). (v, \<not> b)))) (map2 (map2 zip) a c)"
proof -
  have row: "zip r (map Not cr) = map (\<lambda>(v, b). (v, \<not> b)) (zip r cr)" for r :: "real list" and cr
    by (simp add: zip_map2 case_prod_beta)
  have frame: "map2 zip f (map (map Not) cf) = map (map (\<lambda>(v, b). (v, \<not> b))) (map2 zip f cf)"
    for f :: "real list list" and cf
    by (simp add: zip_map2 case_prod_beta row)
  show ?thesis
    unfolding masked_where_def invert_def
    by (simp add: zip_map2 case_prod_beta frame)
qed




lemma shown_masked_where_nth:
  assumes "has_shape nint ny nx a" "has_shape nint ny nx c" "n < nint" "y < ny" "x < nx"
  shows "shown (masked_where (invert c) a ! n) ! y ! x
           = (if c ! n ! y ! x then Some (a ! n ! y ! x) else None)"
  using has_shape_nth [OF assms(1) assms(3) assms(4)] has_shape_nth [OF assms(2) assms(3) assms(4)] assms(3-5)
  by (simp add: masked_where_invert shown_def)




subsection \<open>The good values of the statistics routine\<close>

lemma good_values_effective:
  "length ms = length data \<Longrightarrow>
   good_values data (map2 (\<lambda>m v. m \<and> isfinite v) ms data)
     = finite_values (map fst (filter (\<lambda>(v, m). m \<and> isfinite v) (zip data ms)))"
proof (induction ms data rule: list_induct2)
  case Nil
  then show ?case by (simp add: good_values_def finite_values_def)
next
  case (Cons m ms v data)
  then show ?case
    by (cases v) (simp_all add: good_values_def finite_values_def)
qed

lemma count_effective:
  "length ms = length data \<Longrightarrow>
   length (filter (\<lambda>g. g) (map2 (\<lambda>m v. m \<and> isfinite v) ms data))
     = length (good_values data (map2 (\<lambda>m v. m \<and> isfinite v) ms data))"
proof (induction ms data rule: list_induct2)
  case Nil
  then show ?case by (simp add: good_values_def)
next
  case (Cons m ms v data)
  then show ?case
    by (cases v) (simp_all add: good_values_def)
qed

lemma effective_mask_None: "effective_mask data None = map isfinite data"
  by (induction data) (simp_all add: effective_mask_def)

lemma good_values_None: "good_values data (effective_mask data None) = finite_values data"
  unfolding effective_mask_None
  by (induction data) (simp_all add: good_values_def finite_values_def split: fval.splits)

lemma n_good_eq:
  "accepted data msk \<Longrightarrow>
   length (filter (\<lambda>g. g) (effective_mask data msk)) = length (good_values data (effective_mask data msk))"
  using count_effective [of "case msk of None \<Rightarrow> replicate (length data) True | Some ms \<Rightarrow> ms" data]
  by (simp add: effective_mask_def accepted_def split: option.splits)

lemma medstddev_pair_statistics:
  assumes "accepted data msk"
  shows "medstddev_pair data msk = statistics (good_values data (effective_mask data msk))"
  unfolding medstddev_pair_def statistics_def Let_def n_good_eq [OF assms] by (rule refl)

lemma good_values_Some:
  "length ms = length data \<Longrightarrow>
   good_values data (effective_mask data (Some ms))
     = finite_values (map fst (filter (\<lambda>(v, m). m \<and> isfinite v) (zip data ms)))"
  using good_values_effective [of ms data] by (simp add: effective_mask_def)

lemma finite_values_idem_sel:
  "finite_values (filter isfinite xs) = finite_values xs"
  by (induction xs) (auto simp: finite_values_def split: fval.splits)

lemma filter_isfinite_sel:
  "filter isfinite (map fst (filter (\<lambda>(v, m). m \<and> isfinite v) ps)) = map fst (filter (\<lambda>(v, m). m \<and> isfinite v) ps)"
  by (induction ps) auto

lemma medstddev_selected:
  assumes "length ms = length data"
  shows "medstddev_pair data (Some ms)
           = medstddev_pair (map fst (filter (\<lambda>(v, m). m \<and> isfinite v) (zip data ms))) None"
proof -
  have "medstddev_pair data (Some ms) = statistics (good_values data (effective_mask data (Some ms)))"
    using assms by (simp add: medstddev_pair_statistics accepted_def)
  moreover have "medstddev_pair (map fst (filter (\<lambda>(v, m). m \<and> isfinite v) (zip data ms))) None
      = statistics (finite_values (map fst (filter (\<lambda>(v, m). m \<and> isfinite v) (zip data ms))))"
    by (simp add: medstddev_pair_statistics accepted_def good_values_None)
  ultimately show ?thesis using assms by (simp add: good_values_Some)
qed

lemma effective_mask_nth:
  "length ms = length data \<Longrightarrow> i < length data \<Longrightarrow>
   effective_mask data (Some ms) ! i = (ms ! i \<and> isfinite (data ! i))"
  by (simp add: effective_mask_def)

lemma good_values_update:
  assumes "length ms = length data" "i < length data"
    "\<not> (ms ! i \<and> isfinite (data ! i))" "\<not> (ms ! i \<and> isfinite v)"
  shows "good_values (data[i := v]) (effective_mask (data[i := v]) (Some ms))
           = good_values data (effective_mask data (Some ms))"
  using assms
proof (induction ms data arbitrary: i rule: list_induct2)
  case Nil
  then show ?case by simp
next
  case (Cons m ms d data)
  show ?case
  proof (cases i)
    case 0
    with Cons.prems show ?thesis
      by (cases d; cases v) (simp_all add: good_values_def effective_mask_def)
  next
    case (Suc j)
    with Cons.prems Cons.IH [of j] show ?thesis
      by (cases d) (simp_all add: good_values_def effective_mask_def)
  qed
qed

subsection \<open>Saved files and pauses, routine by routine\<close>

lemma saved_drift_2D_run:
  "saved (fst (drift_2D sep ft meta)) = [outputdir meta @ ''figs'' @ sep @ ''fig3105_Drift2D'' @ ft]"
  by (simp add: drift_2D_def Let_def saved_append)

lemma saved_profile:
  "saved (fst (profile sep ft meta n m)) =
     (if 0 < num_data_files meta \<and> 0 < n_int meta
      then [outputdir meta @ ''figs'' @ sep @ ''fig3303_file'' @ zero_padded (num_data_files meta) m
            @ ''_int'' @ zero_padded (n_int meta) n @ ''_Profile'' @ ft]
      else [])"
  by (simp add: profile_def Let_def zfill_number_eq saved_append)

lemma saved_driftypos:
  "saved (fst (driftypos sep ft meta)) = [outputdir meta @ ''figs'' @ sep @ ''fig3103_DriftYPos'' @ ft]"
  by (simp add: driftypos_def Let_def saved_append)

lemma saved_driftywidth:
  "saved (fst (driftywidth sep ft meta)) = [outputdir meta @ ''figs'' @ sep @ ''fig3104_DriftYWidth'' @ ft]"
  by (simp add: driftywidth_def Let_def saved_append)

lemma saved_curvature:
  "saved (fst (curvature sep ft meta)) = [outputdir meta @ ''figs'' @ sep @ ''fig3106_Curvature'' @ ft]"
  by (simp add: curvature_def Let_def saved_append)

lemma saved_median_frame:
  "saved (fst (median_frame sep ft meta)) = [outputdir meta @ ''figs'' @ sep @ ''fig3401_MedianFrame'' @ ft]"
  by (simp add: median_frame_def Let_def saved_append)

lemma returns_simple:
  "snd (drift_2D sep ft meta) = None" "snd (driftypos sep ft meta) = None"
  "snd (driftywidth sep ft meta) = None" "snd (curvature sep ft meta) = None"
  "snd (median_frame sep ft meta) = None"
  by (simp_all add: drift_2D_def driftypos_def driftywidth_def curvature_def median_frame_def Let_def)

lemma returns_source_position:
  "snd (source_position sep ft meta m n g f) = None \<longleftrightarrow> 0 < num_data_files meta \<and> 0 < n_int meta"
  by (simp add: source_position_def Let_def zfill_number_eq)

lemma returns_profile:
  "snd (profile sep ft meta n m) = None \<longleftrightarrow> 0 < num_data_files meta \<and> 0 < n_int meta"
  by (simp add: profile_def Let_def zfill_number_eq)

lemma returns_subdata:
  "snd (subdata sep ft meta i n m nx) = None \<longleftrightarrow> 0 < num_data_files meta \<and> 0 < n_int meta \<and> 0 < nx"
  by (simp add: subdata_def Let_def zfill_number_eq)

lemma returns_residualBackground:
  "snd (residualBackground sep ft data meta m lo hi) = None \<longleftrightarrow> 0 < num_data_files meta"
  by (simp add: residualBackground_def Let_def zfill_number_eq)

lemma saved_image_and_background:
  "saved (fst (image_and_background sep ft data meta m))
     = saved (fst (image_and_background_loop sep ft meta m
          (masked_where (invert (mask_values data)) (flux_values data))
          (masked_where (invert (mask_values data)) (bg_values data))
          (ma_median (masked_where (invert (mask_values data)) (bg_values data)))
          (ma_std (masked_where (invert (mask_values data)) (bg_values data)))
          [0..<nat (int_end meta - int_start meta)]))"
  by (simp add: image_and_background_def Let_def case_prod_beta)


lemma hide_plots_lc: "hide_plots (fst (lc_nodriftcorr sep ft meta)) = hide_plots meta"
  by (simp add: lc_nodriftcorr_def Let_def case_prod_beta)

lemma outputdir_lc: "outputdir (fst (lc_nodriftcorr sep ft meta)) = outputdir meta"
  by (simp add: lc_nodriftcorr_def Let_def case_prod_beta)

lemma pauses_append: "pauses (xs @ ys) = pauses xs @ pauses ys"
  by (induction xs rule: pauses.induct) simp_all

lemma loop_pause_follows_save:
  "pause_follows_save b (fst (image_and_background_loop sep ft meta m frames bgframes med sd ns))"
  by (induction ns arbitrary: b) (simp_all add: Let_def case_prod_beta split: sum.splits)

lemma loop_hidden_no_pause:
  "hide_plots meta \<Longrightarrow>
   pauses (fst (image_and_background_loop sep ft meta m frames bgframes med sd ns)) = []"
  by (induction ns) (simp_all add: Let_def case_prod_beta split: sum.splits)

lemma pause_image_and_background:
  "pause_follows_save False (fst (image_and_background sep ft data meta m))
   \<and> (hide_plots meta \<longrightarrow> pauses (fst (image_and_background sep ft data meta m)) = [])"
  by (simp add: image_and_background_def Let_def case_prod_beta loop_pause_follows_save
        loop_hidden_no_pause)

lemma pause_lc_nodriftcorr:
  "pause_follows_save False (snd (lc_nodriftcorr sep ft meta))
   \<and> (hide_plots meta \<longrightarrow> pauses (snd (lc_nodriftcorr sep ft meta)) = [])"
  by (simp add: lc_nodriftcorr_def Let_def case_prod_beta pauses_append)

lemma pause_drift_2D:
  "pause_follows_save False (fst (drift_2D sep ft meta))
   \<and> (hide_plots meta \<longrightarrow> pauses (fst (drift_2D sep ft meta)) = [])"
  by (simp add: drift_2D_def Let_def)

lemma pause_optimal_spectrum:
  "pause_follows_save False (fst (optimal_spectrum sep ft meta n m))
   \<and> (hide_plots meta \<longrightarrow> pauses (fst (optimal_spectrum sep ft meta n m)) = [])"
  by (simp add: optimal_spectrum_def Let_def split: sum.splits)

lemma pause_source_position:
  "pause_follows_save False (fst (source_position sep ft meta m n g f))
   \<and> (hide_plots meta \<longrightarrow> pauses (fst (source_position sep ft meta m n g f)) = [])"
  by (simp add: source_position_def Let_def split: sum.splits)

lemma pause_profile:
  "pause_follows_save False (fst (profile sep ft meta n m))
   \<and> (hide_plots meta \<longrightarrow> pauses (fst (profile sep ft meta n m)) = [])"
  by (simp add: profile_def Let_def split: sum.splits)

lemma pause_subdata:
  "pause_follows_save False (fst (subdata sep ft meta i n m nx))
   \<and> (hide_plots meta \<longrightarrow> pauses (fst (subdata sep ft meta i n m nx)) = [])"
  by (simp add: subdata_def Let_def split: sum.splits)

lemma pause_driftypos:
  "pause_follows_save False (fst (driftypos sep ft meta))
   \<and> (hide_plots meta \<longrightarrow> pauses (fst (driftypos sep ft meta)) = [])"
  by (simp add: driftypos_def Let_def)

lemma pause_driftywidth:
  "pause_follows_save False (fst (driftywidth sep ft meta))
   \<and> (hide_plots meta \<longrightarrow> pauses (fst (driftywidth sep ft meta)) = [])"
  by (simp add: driftywidth_def Let_def)

lemma pause_residualBackground:
  "pause_follows_save False (fst (residualBackground sep ft data meta m lo hi))
   \<and> (hide_plots meta \<longrightarrow> pauses (fst (residualBackground sep ft data meta m lo hi)) = [])"
  by (simp add: residualBackground_def Let_def split: sum.splits)

lemma pause_curvature:
  "pause_follows_save False (fst (curvature sep ft meta))
   \<and> (hide_plots meta \<longrightarrow> pauses (fst (curvature sep ft meta)) = [])"
  by (simp add: curvature_def Let_def)

lemma pause_median_frame:
  "pause_follows_save False (fst (median_frame sep ft meta))
   \<and> (hide_plots meta \<longrightarrow> pauses (fst (median_frame sep ft meta)) = [])"
  by (simp add: median_frame_def Let_def)


lemma returned_single_figure_routines:
  "map (\<lambda>r. snd r = None) (single_figure_routines sep ft data meta i n m nx isgauss isFWM lo hi) =
     [True, True,
      0 < num_data_files meta \<and> 0 < n_int meta,
      0 < num_data_files meta \<and> 0 < n_int meta,
      0 < num_data_files meta \<and> 0 < n_int meta,
      0 < num_data_files meta \<and> 0 < n_int meta \<and> 0 < nx,
      True, True, 0 < num_data_files meta, True, True]"
  unfolding single_figure_routines_def list.map snd_conv
    returns_simple returns_optimal_spectrum returns_source_position returns_profile
    returns_subdata returns_residualBackground
  by simp




lemmas eval_padding = zero_padded_def compute_floorlog zfill_def str_int_def str_nat.simps
  digit_char_def

lemma example_meta_fields:
  "outputdir (example_meta files ints hide axis) = ''out/''"
  "num_data_files (example_meta files ints hide axis) = files"
  "n_int (example_meta files ints hide axis) = ints"
  "int_start (example_meta files ints hide axis) = 0"
  "int_end (example_meta files ints hide axis) = 2"
  "hide_plots (example_meta files ints hide axis) = hide"
  "time_axis (example_meta files ints hide axis) = axis"
  "vmin (example_meta files ints hide axis) = None"
  "vmax (example_meta files ints hide axis) = None"
  by (simp_all add: example_meta_def)


lemma figure_path_underscore_after_tag:
  "length tag = 4 \<Longrightarrow>
   underscore_after_tag output_dir sep (figure_path output_dir sep tag F I C label ext)"
  by (cases F; cases I; cases C)
     (simp_all add: underscore_after_tag_def figure_path_def Let_def nth_append)

lemma saved_loop_scheme:
  "set (saved (fst (image_and_background sep ft data meta m)))
     \<subseteq> fig3301_path sep ft meta m ` {0..<nat (int_end meta - int_start meta)}"
  unfolding saved_image_and_background
  using saved_loop_subset [of sep ft meta m _ _ _ _ "[0..<nat (int_end meta - int_start meta)]"]
  by simp

subsection \<open>The defaults of the light-curve figure\<close>

lemma printed_append: "printed (xs @ ys) = printed xs @ printed ys"
  by (induction xs rule: printed.induct) simp_all

lemma logged_append: "logged (xs @ ys) = logged xs @ logged ys"
  by (induction xs rule: logged.induct) simp_all

lemma time_axis_lc:
  "time_axis (fst (lc_nodriftcorr sep ft meta)) =
     (if time_axis meta = Some (PyStr ''x'') then Some (PyStr ''x'') else Some (PyStr ''y''))"
  by (simp add: lc_nodriftcorr_def Let_def case_prod_beta)

lemma printed_lc:
  "printed (snd (lc_nodriftcorr sep ft meta)) =
     (if time_axis meta \<in> {None, Some PyNone, Some (PyStr ''y''), Some (PyStr ''x'')}
      then [] else [time_axis_warning])"
  by (simp add: lc_nodriftcorr_def Let_def case_prod_beta printed_append)

lemma logged_lc: "logged (snd (lc_nodriftcorr sep ft meta)) = []"
  by (simp add: lc_nodriftcorr_def Let_def case_prod_beta logged_append)

lemma vmin_lc:
  "vmin (fst (lc_nodriftcorr sep ft meta)) =
     (if vmin meta = None \<or> vmin meta = Some PyNone then Some (PyNum 0.97) else vmin meta)"
  by (simp add: lc_nodriftcorr_def Let_def case_prod_beta)

lemma vmax_lc:
  "vmax (fst (lc_nodriftcorr sep ft meta)) =
     (if vmax meta = None then Some (PyNum 1.03) else vmax meta)"
  by (simp add: lc_nodriftcorr_def Let_def case_prod_beta)

subsection \<open>The statistics routine on the inputs of its test\<close>

lemmas eval_medstddev = medstddev_def medstddev_pair_def good_values_def effective_mask_def
  median_def samples_marked_finite_def samples_unmarked_finite_def

lemma n_good_length:
  "accepted data msk \<Longrightarrow> n_good data msk = length (good_values data (effective_mask data msk))"
  unfolding n_good_def by (rule n_good_eq)

lemma medstddev_statistics:
  "accepted data msk \<Longrightarrow>
   medstddev data msk medi =
     (let (std, med) = statistics (good_values data (effective_mask data msk))
      in if medi then StdMed std med else Std std)"
  by (simp add: medstddev_def medstddev_pair_statistics)

lemma medstddev_marked:
  assumes "length ms = length data"
  shows "medstddev data (Some ms) medi = medstddev (samples_marked_finite data ms) None medi"
  using medstddev_selected [OF assms] by (simp add: medstddev_def samples_marked_finite_def)

lemma length_finite_values_marked:
  "length (finite_values (map fst (filter (\<lambda>(v, m). m \<and> isfinite v) ps)))
     = length (filter (\<lambda>(v, m). m \<and> isfinite v) ps)"
proof (induction ps)
  case Nil
  then show ?case by (simp add: finite_values_def)
next
  case (Cons p ps)
  obtain v m where p: "p = (v, m)" by (cases p)
  from Cons show ?case unfolding p
    by (cases v) (simp_all add: finite_values_def)
qed

lemma n_good_marked:
  assumes "length ms = length data"
  shows "n_good data (Some ms) = length (samples_marked_finite data ms)"
  using assms
  by (simp add: n_good_length accepted_def good_values_Some samples_marked_finite_def
        length_finite_values_marked)

lemma medstddev_update:
  assumes "length ms = length data" "i < length data"
    "\<not> (ms ! i \<and> isfinite (data ! i))" "\<not> (ms ! i \<and> isfinite v)"
  shows "medstddev (data[i := v]) (Some ms) medi = medstddev data (Some ms) medi"
proof -
  have "accepted (data[i := v]) (Some ms)" "accepted data (Some ms)"
    using assms(1) by (simp_all add: accepted_def)
  then show ?thesis
    using good_values_update [OF assms] by (simp add: medstddev_statistics)
qed

lemma sqrt_13_2_close: "\<bar>sqrt (13 / 2) - 2.5495097567963922\<bar> \<le> (1 / 10 ^ 7) * \<bar>2.5495097567963922 :: real\<bar>"
proof -
  have lo: "(2.5495097 :: real) \<le> sqrt (13 / 2)"
    by (rule real_le_rsqrt) (simp add: power2_eq_square)
  have hi: "sqrt (13 / 2) \<le> (2.5495098 :: real)"
    by (rule real_le_lsqrt) (simp_all add: power2_eq_square)
  have "sqrt (13 / 2) - 2.5495097567963922 \<le> (1 / 10 ^ 7) * 2.5495097567963922"
    using hi by simp
  moreover have "2.5495097567963922 - sqrt (13 / 2) \<le> (1 / 10 ^ 7) * 2.5495097567963922"
    using lo by simp
  ultimately show ?thesis unfolding abs_le_iff by simp
qed

lemma sqrt_5_close: "\<bar>sqrt 5 - 2.2360679775\<bar> \<le> (1 / 10 ^ 7) * \<bar>2.2360679775 :: real\<bar>"
proof -
  have lo: "(2.2360679 :: real) \<le> sqrt 5"
    by (rule real_le_rsqrt) (simp add: power2_eq_square)
  have hi: "sqrt 5 \<le> (2.2360680 :: real)"
    by (rule real_le_lsqrt) (simp_all add: power2_eq_square)
  have "sqrt 5 - 2.2360679775 \<le> (1 / 10 ^ 7) * 2.2360679775"
    using hi by simp
  moreover have "2.2360679775 - sqrt 5 \<le> (1 / 10 ^ 7) * 2.2360679775"
    using lo by simp
  ultimately show ?thesis unfolding abs_le_iff by simp
qed

lemma sqrt_5_2_close: "\<bar>sqrt (5 / 2) - 1.58113883008\<bar> \<le> (1 / 10 ^ 7) * \<bar>1.58113883008 :: real\<bar>"
proof -
  have lo: "(1.5811388 :: real) \<le> sqrt (5 / 2)"
    by (rule real_le_rsqrt) (simp add: power2_eq_square)
  have hi: "sqrt (5 / 2) \<le> (1.5811389 :: real)"
    by (rule real_le_lsqrt) (simp_all add: power2_eq_square)
  have "sqrt (5 / 2) - 1.58113883008 \<le> (1 / 10 ^ 7) * 1.58113883008"
    using hi by simp
  moreover have "1.58113883008 - sqrt (5 / 2) \<le> (1 / 10 ^ 7) * 1.58113883008"
    using lo by simp
  ultimately show ?thesis unfolding abs_le_iff by simp
qed

lemma medstddev_examples:
  "medstddev (map Fin [1, 3, 4, 5, 6, 7, 7]) None True = StdMed (Fin (sqrt 5)) (Fin 5)"
  "medstddev (map Fin [1, 3, 4, 5, 6, 7, 7]) (Some [True, True, True, False, False, False, False]) True
     = StdMed (Fin (sqrt (5 / 2))) (Fin 3)"
  "medstddev [NaN, Fin 1, Fin 4, PInf, Fin 6] None True = StdMed (Fin (sqrt (13 / 2))) (Fin 4)"
  "medstddev (map Fin [1, 4, 6]) (Some [False, False, True]) True = StdMed (Fin 0) (Fin 6)"
  "medstddev (map Fin [1, 4, 6]) (Some [False, False, False]) True = StdMed NaN NaN"
  "medstddev (map Fin [1, 4, 6]) (Some ([False, False, True][2 := False])) True = StdMed NaN NaN"
  by (simp_all add: eval_medstddev)

lemma assert_allclose_examples:
  "assert_allclose (StdMed (Fin (sqrt 5)) (Fin 5)) (2.2360679775, 5.0)"
  "assert_allclose (StdMed (Fin (sqrt (5 / 2))) (Fin 3)) (1.58113883008, 3.0)"
  "assert_allclose (StdMed (Fin (sqrt (13 / 2))) (Fin 4)) (2.5495097567963922, 4.0)"
  using sqrt_5_close sqrt_5_2_close sqrt_13_2_close
  unfolding assert_allclose_def by simp_all

lemma medstddev_passes_test: "test_medstddev medstddev"
  unfolding test_medstddev_def Let_def medstddev_examples
  using assert_allclose_examples by simp

subsection \<open>What the two image routines show\<close>












section \<open>The claims\<close>

text \<open>
  Claim C1.  For a value sequence and an explicit mask of its shape, a sample counts in
  the median and the standard deviation that \<open>medstddev\<close> returns if and only if its
  mask entry marks it and its value is finite.  The entry that marks a sample for use
  is the true or 1 entry, as the test of the routine fixes it; the claim has it the
  other way round.  The theorem: the result is the one of the marked finite samples
  alone, they are the good samples, and changing a sample that is not good into
  another value that is not good leaves the result as it is.
\<close>

theorem mask_marks_samples_to_use:
  assumes "length ms = length data"
  shows "medstddev data (Some ms) medi = medstddev (samples_marked_finite data ms) None medi
    \<and> n_good data (Some ms) = length (samples_marked_finite data ms)
    \<and> (\<forall>i < length data.
          effective_mask data (Some ms) ! i = (ms ! i \<and> isfinite (data ! i)))
    \<and> (\<forall>i v. i < length data \<and> \<not> (ms ! i \<and> isfinite (data ! i)) \<and> \<not> (ms ! i \<and> isfinite v)
          \<longrightarrow> medstddev (data[i := v]) (Some ms) medi = medstddev data (Some ms) medi)"
  using medstddev_marked [OF assms] n_good_marked [OF assms] effective_mask_nth [OF assms]
    medstddev_update [OF assms]
  by blast

theorem mask_marks_samples_to_use_witness:
  "length [True, True, True, False, False, False, False] = length (map Fin [1, 3, 4, 5, 6, 7, 7])
   \<and> samples_marked_finite (map Fin [1, 3, 4, 5, 6, 7, 7])
        [True, True, True, False, False, False, False] = [Fin 1, Fin 3, Fin 4]
   \<and> medstddev (map Fin [1, 3, 4, 5, 6, 7, 7])
        (Some [True, True, True, False, False, False, False]) True
       = medstddev [Fin 1, Fin 3, Fin 4] None True
   \<and> n_good (map Fin [1, 3, 4, 5, 6, 7, 7])
        (Some [True, True, True, False, False, False, False]) = 3
   \<and> medstddev ((map Fin [1, 3, 4, 5, 6, 7, 7])[4 := NaN])
        (Some [True, True, True, False, False, False, False]) True
       = medstddev (map Fin [1, 3, 4, 5, 6, 7, 7])
           (Some [True, True, True, False, False, False, False]) True"
proof -
  let ?a = "map Fin [1, 3, 4, 5, 6, 7, 7]"
  let ?m = "[True, True, True, False, False, False, False]"
  have len: "length ?m = length ?a" by simp
  have sel: "samples_marked_finite ?a ?m = [Fin 1, Fin 3, Fin 4]"
    by (simp add: samples_marked_finite_def)
  note inst = mask_marks_samples_to_use [OF len, of True]
  from inst have "medstddev ?a (Some ?m) True = medstddev (samples_marked_finite ?a ?m) None True"
    by (rule conjunct1)
  then have a: "medstddev ?a (Some ?m) True = medstddev [Fin 1, Fin 3, Fin 4] None True"
    unfolding sel .
  from inst have "n_good ?a (Some ?m) = length (samples_marked_finite ?a ?m)"
    by (elim conjE)
  then have b: "n_good ?a (Some ?m) = 3" unfolding sel by simp
  from inst have upd: "\<forall>i v. i < length ?a \<and> \<not> (?m ! i \<and> isfinite (?a ! i)) \<and> \<not> (?m ! i \<and> isfinite v)
          \<longrightarrow> medstddev (?a[i := v]) (Some ?m) True = medstddev ?a (Some ?m) True"
    by (elim conjE)
  have "4 < length ?a \<and> \<not> (?m ! 4 \<and> isfinite (?a ! 4)) \<and> \<not> (?m ! 4 \<and> isfinite NaN)"
    by simp
  with upd have c: "medstddev (?a[4 := NaN]) (Some ?m) True = medstddev ?a (Some ?m) True"
    by blast
  from len sel a b c show ?thesis by (intro conjI)
qed

text \<open>
  Claim C1 as stated fails on the masked case of the test: for the values
  \<open>1,3,4,5,6,7,7\<close> and the mask \<open>1,1,1,0,0,0,0\<close> the result is the expected
  \<open>(1.58113883008, 3)\<close>, while the samples whose entry is 0 give \<open>(1, 6.5)\<close>.
\<close>

theorem mask_zero_samples_counterexample:
  "assert_allclose
     (medstddev (map Fin [1, 3, 4, 5, 6, 7, 7])
        (Some [True, True, True, False, False, False, False]) True) (1.58113883008, 3.0)
   \<and> samples_unmarked_finite (map Fin [1, 3, 4, 5, 6, 7, 7])
        [True, True, True, False, False, False, False] = [Fin 5, Fin 6, Fin 7, Fin 7]
   \<and> medstddev (samples_unmarked_finite (map Fin [1, 3, 4, 5, 6, 7, 7])
        [True, True, True, False, False, False, False]) None True
       = StdMed (Fin 1) (Fin (13 / 2))
   \<and> medstddev (map Fin [1, 3, 4, 5, 6, 7, 7])
        (Some [True, True, True, False, False, False, False]) True
       \<noteq> medstddev (samples_unmarked_finite (map Fin [1, 3, 4, 5, 6, 7, 7])
            [True, True, True, False, False, False, False]) None True"
proof -
  let ?a = "map Fin [1, 3, 4, 5, 6, 7, 7]"
  let ?m = "[True, True, True, False, False, False, False]"
  have close: "assert_allclose (medstddev ?a (Some ?m) True) (1.58113883008, 3.0)"
    unfolding medstddev_examples by (rule assert_allclose_examples)
  have sel: "samples_unmarked_finite ?a ?m = [Fin 5, Fin 6, Fin 7, Fin 7]"
    by (simp add: samples_unmarked_finite_def)
  have other: "medstddev [Fin 5, Fin 6, Fin 7, Fin 7] None True = StdMed (Fin 1) (Fin (13 / 2))"
    by (simp add: eval_medstddev power2_eq_square)
  have "medstddev ?a (Some ?m) True \<noteq> StdMed (Fin 1) (Fin (13 / 2))"
    unfolding medstddev_examples by simp
  with close sel other show ?thesis by simp
qed

text \<open>
  Claim C2.  With at least two good values \<open>medstddev\<close> returns the median of the good
  values and the square root of the sum of their squared distances to that median,
  divided by their number less one; without an explicit mask the good values are the
  finite ones.  For \<open>NaN,1,4,Inf,6\<close> the result is \<open>(sqrt 6.5, 4)\<close>, within the test's
  tolerance of \<open>2.5495097567963922\<close>, and for \<open>1,3,4,5,6,7,7\<close> it is \<open>(sqrt 5, 5)\<close>,
  within the tolerance of \<open>2.2360679775\<close>.
\<close>

theorem medstddev_about_median:
  "(accepted data msk \<longrightarrow>
      n_good data msk = length (good_values data (effective_mask data msk)))
   \<and> (accepted data msk \<and> 2 \<le> n_good data msk \<longrightarrow>
        medstddev data msk True
          = StdMed
              (Fin (sqrt (sum_list (map (\<lambda>x. (x - median (good_values data (effective_mask data msk)))\<^sup>2)
                                     (good_values data (effective_mask data msk)))
                          / (real (n_good data msk) - 1))))
              (Fin (median (good_values data (effective_mask data msk)))))
   \<and> good_values data (effective_mask data None) = finite_values data
   \<and> medstddev [NaN, Fin 1, Fin 4, PInf, Fin 6] None True = StdMed (Fin (sqrt (13 / 2))) (Fin 4)
   \<and> \<bar>sqrt (13 / 2) - 2.5495097567963922\<bar> \<le> (1 / 10 ^ 7) * \<bar>2.5495097567963922 :: real\<bar>
   \<and> medstddev (map Fin [1, 3, 4, 5, 6, 7, 7]) None True = StdMed (Fin (sqrt 5)) (Fin 5)
   \<and> \<bar>sqrt 5 - 2.2360679775\<bar> \<le> (1 / 10 ^ 7) * \<bar>2.2360679775 :: real\<bar>"
proof (intro conjI impI)
  assume "accepted data msk"
  then show "n_good data msk = length (good_values data (effective_mask data msk))"
    by (rule n_good_length)
next
  assume h: "accepted data msk \<and> 2 \<le> n_good data msk"
  then have two: "2 \<le> length (filter (\<lambda>g. g) (effective_mask data msk))"
    by (simp add: n_good_def)
  then have "filter (\<lambda>g. g) (effective_mask data msk) \<noteq> []"
    by auto
  with two show "medstddev data msk True
          = StdMed
              (Fin (sqrt (sum_list (map (\<lambda>x. (x - median (good_values data (effective_mask data msk)))\<^sup>2)
                                     (good_values data (effective_mask data msk)))
                          / (real (n_good data msk) - 1))))
              (Fin (median (good_values data (effective_mask data msk))))"
    by (simp add: medstddev_def medstddev_pair_def Let_def n_good_def)
next
  show "good_values data (effective_mask data None) = finite_values data"
    by (rule good_values_None)
  show "medstddev [NaN, Fin 1, Fin 4, PInf, Fin 6] None True = StdMed (Fin (sqrt (13 / 2))) (Fin 4)"
    by (rule medstddev_examples)
  show "\<bar>sqrt (13 / 2) - 2.5495097567963922\<bar> \<le> (1 / 10 ^ 7) * \<bar>2.5495097567963922 :: real\<bar>"
    by (rule sqrt_13_2_close)
  show "medstddev (map Fin [1, 3, 4, 5, 6, 7, 7]) None True = StdMed (Fin (sqrt 5)) (Fin 5)"
    by (rule medstddev_examples)
  show "\<bar>sqrt 5 - 2.2360679775\<bar> \<le> (1 / 10 ^ 7) * \<bar>2.2360679775 :: real\<bar>"
    by (rule sqrt_5_close)
qed

theorem medstddev_about_median_witness:
  "accepted [NaN, Fin 1, Fin 4, PInf, Fin 6] None
   \<and> 2 \<le> n_good [NaN, Fin 1, Fin 4, PInf, Fin 6] None
   \<and> n_good [NaN, Fin 1, Fin 4, PInf, Fin 6] None = 3
   \<and> good_values [NaN, Fin 1, Fin 4, PInf, Fin 6] (effective_mask [NaN, Fin 1, Fin 4, PInf, Fin 6] None)
       = [1, 4, 6]
   \<and> median [1, 4, 6] = 4
   \<and> medstddev [NaN, Fin 1, Fin 4, PInf, Fin 6] None True
       = StdMed (Fin (sqrt (((1 - 4)\<^sup>2 + (4 - 4)\<^sup>2 + (6 - 4)\<^sup>2) / (3 - 1)))) (Fin 4)"
proof -
  let ?d = "[NaN, Fin 1, Fin 4, PInf, Fin 6]"
  have acc: "accepted ?d None" by (simp add: accepted_def)
  have n: "n_good ?d None = 3" by (simp add: n_good_def effective_mask_def)
  have g: "good_values ?d (effective_mask ?d None) = [1, 4, 6]"
    by (simp add: good_values_def effective_mask_def)
  have med: "median [1, 4, 6] = 4" by (simp add: median_def)
  have hyp: "accepted ?d None \<and> 2 \<le> n_good ?d None" using acc n by simp
  note inst = medstddev_about_median [of ?d None]
  from inst hyp
  have "medstddev ?d None True
          = StdMed
              (Fin (sqrt (sum_list (map (\<lambda>x. (x - median (good_values ?d (effective_mask ?d None)))\<^sup>2)
                                     (good_values ?d (effective_mask ?d None)))
                          / (real (n_good ?d None) - 1))))
              (Fin (median (good_values ?d (effective_mask ?d None))))"
    by blast
  then have r: "medstddev ?d None True
       = StdMed (Fin (sqrt (((1 - 4)\<^sup>2 + (4 - 4)\<^sup>2 + (6 - 4)\<^sup>2) / (3 - 1)))) (Fin 4)"
    unfolding g n med by simp
  from acc hyp n g med r show ?thesis by (intro conjI) (elim conjE, assumption)+
qed

text \<open>
  Claim C3.  \<open>medstddev\<close> returns a result on degenerate input: with no good value
  both the standard deviation and the median are not-a-number, and with one good value
  the standard deviation is 0 and the median is that value.
\<close>

theorem medstddev_degenerate:
  "(accepted data msk \<and> n_good data msk = 0 \<longrightarrow>
      medstddev data msk True = StdMed NaN NaN \<and> medstddev data msk False = Std NaN)
   \<and> (accepted data msk \<and> n_good data msk = 1 \<longrightarrow>
        (\<exists>v. good_values data (effective_mask data msk) = [v]
             \<and> medstddev data msk True = StdMed (Fin 0) (Fin v)
             \<and> medstddev data msk False = Std (Fin 0)))
   \<and> medstddev (map Fin [1, 4, 6]) (Some [False, False, True]) True = StdMed (Fin 0) (Fin 6)
   \<and> medstddev (map Fin [1, 4, 6]) (Some [False, False, False]) True = StdMed NaN NaN"
proof (intro conjI impI)
  assume h: "accepted data msk \<and> n_good data msk = 0"
  then show "medstddev data msk True = StdMed NaN NaN" "medstddev data msk False = Std NaN"
    by (simp_all add: medstddev_def medstddev_pair_def Let_def n_good_def)
next
  assume h: "accepted data msk \<and> n_good data msk = 1"
  then have one: "length (filter (\<lambda>g. g) (effective_mask data msk)) = 1"
    by (simp add: n_good_def)
  from h have "length (good_values data (effective_mask data msk)) = 1"
    using n_good_length [of data msk] by simp
  then obtain v where v: "good_values data (effective_mask data msk) = [v]"
    by (cases "good_values data (effective_mask data msk)") auto
  from one have "filter (\<lambda>g. g) (effective_mask data msk) \<noteq> []"
    by auto
  then have "medstddev data msk True = StdMed (Fin 0) (Fin v)" "medstddev data msk False = Std (Fin 0)"
    using one v by (simp_all add: medstddev_def medstddev_pair_def Let_def)
  with v show "\<exists>v. good_values data (effective_mask data msk) = [v]
             \<and> medstddev data msk True = StdMed (Fin 0) (Fin v)
             \<and> medstddev data msk False = Std (Fin 0)"
    by blast
next
  show "medstddev (map Fin [1, 4, 6]) (Some [False, False, True]) True = StdMed (Fin 0) (Fin 6)"
    by (rule medstddev_examples)
  show "medstddev (map Fin [1, 4, 6]) (Some [False, False, False]) True = StdMed NaN NaN"
    by (rule medstddev_examples)
qed

theorem medstddev_degenerate_witness:
  "accepted (map Fin [1, 4, 6]) (Some [False, False, True])
   \<and> n_good (map Fin [1, 4, 6]) (Some [False, False, True]) = 1
   \<and> good_values (map Fin [1, 4, 6]) (effective_mask (map Fin [1, 4, 6]) (Some [False, False, True]))
       = [6]
   \<and> medstddev (map Fin [1, 4, 6]) (Some [False, False, True]) True = StdMed (Fin 0) (Fin 6)
   \<and> medstddev (map Fin [1, 4, 6]) (Some [False, False, True]) False = Std (Fin 0)
   \<and> accepted [NaN, PInf, Fin 2] (Some [True, True, False])
   \<and> n_good [NaN, PInf, Fin 2] (Some [True, True, False]) = 0
   \<and> medstddev [NaN, PInf, Fin 2] (Some [True, True, False]) True = StdMed NaN NaN
   \<and> medstddev [NaN, PInf, Fin 2] (Some [True, True, False]) False = Std NaN"
proof -
  let ?a = "map Fin [1, 4, 6]"
  let ?m = "Some [False, False, True]"
  let ?b = "[NaN, PInf, Fin 2]"
  let ?k = "Some [True, True, False]"
  have acc1: "accepted ?a ?m" by (simp add: accepted_def)
  have n1: "n_good ?a ?m = 1" by (simp add: n_good_def effective_mask_def)
  have g1: "good_values ?a (effective_mask ?a ?m) = [6]"
    by (simp add: good_values_def effective_mask_def)
  from medstddev_degenerate [of ?a ?m] acc1 n1
  obtain v where v: "good_values ?a (effective_mask ?a ?m) = [v]"
    "medstddev ?a ?m True = StdMed (Fin 0) (Fin v)" "medstddev ?a ?m False = Std (Fin 0)"
    by blast
  from v(1) g1 have "v = 6" by simp
  with v have r1: "medstddev ?a ?m True = StdMed (Fin 0) (Fin 6)" "medstddev ?a ?m False = Std (Fin 0)"
    by simp_all
  have acc0: "accepted ?b ?k" by (simp add: accepted_def)
  have n0: "n_good ?b ?k = 0" by (simp add: n_good_def effective_mask_def)
  from medstddev_degenerate [of ?b ?k] acc0 n0
  have r0: "medstddev ?b ?k True = StdMed NaN NaN" "medstddev ?b ?k False = Std NaN"
    by blast+
  from acc1 n1 g1 r1 acc0 n0 r0 show ?thesis by (intro conjI)
qed




text \<open>
  Claim C5.  Every file that a plotting routine saves has a path of the scheme
  \<^verbatim>\<open><output_dir>/figs/fig<NNNN>[_file<F>][_int<I>][_col<C>]_<Label><ext>\<close>.
  This holds for eleven routines, when \<^verbatim>\<open>meta.outputdir\<close> is the output
  directory followed by the separator (the routines append to it as it is);
  \<open>lc_nodriftcorr\<close> joins its tag and its label with a hyphen,
  \<^verbatim>\<open>fig3101-2D_LC\<close>.
\<close>

theorem figure_paths_follow_scheme:
  assumes "outputdir meta = output_dir @ sep"
  shows
    "set (saved (fst (image_and_background sep ft data meta m)))
       \<subseteq> (\<lambda>k. figure_path output_dir sep ''3301'' (Some (zero_padded (num_data_files meta) m))
                  (Some (zero_padded (n_int meta) (int k))) None ''ImageAndBackground'' ft)
           ` {0..<nat (int_end meta - int_start meta)}
     \<and> set (saved (fst (drift_2D sep ft meta)))
       \<subseteq> {figure_path output_dir sep ''3105'' None None None ''Drift2D'' ft}
     \<and> set (saved (fst (optimal_spectrum sep ft meta n m)))
       \<subseteq> {figure_path output_dir sep ''3302'' (Some (zero_padded (num_data_files meta) m))
             (Some (zero_padded (n_int meta) n)) None ''Spectrum'' ft}
     \<and> set (saved (fst (source_position sep ft meta m n isgauss isFWM)))
       \<subseteq> {figure_path output_dir sep ''3102'' (Some (zero_padded (num_data_files meta) m))
             (Some (zero_padded (n_int meta) n)) None ''source_pos'' ft}
     \<and> set (saved (fst (profile sep ft meta n m)))
       \<subseteq> {figure_path output_dir sep ''3303'' (Some (zero_padded (num_data_files meta) m))
             (Some (zero_padded (n_int meta) n)) None ''Profile'' ft}
     \<and> set (saved (fst (subdata sep ft meta i n m nx)))
       \<subseteq> {figure_path output_dir sep ''3501'' (Some (zero_padded (num_data_files meta) m))
             (Some (zero_padded (n_int meta) n)) (Some (zero_padded nx i)) ''subdata'' ft}
     \<and> set (saved (fst (driftypos sep ft meta)))
       \<subseteq> {figure_path output_dir sep ''3103'' None None None ''DriftYPos'' ft}
     \<and> set (saved (fst (driftywidth sep ft meta)))
       \<subseteq> {figure_path output_dir sep ''3104'' None None None ''DriftYWidth'' ft}
     \<and> set (saved (fst (residualBackground sep ft data meta m lo hi)))
       \<subseteq> {figure_path output_dir sep ''3304'' (Some (zero_padded (num_data_files meta) m))
             None None ''ResidualBG'' ft}
     \<and> set (saved (fst (curvature sep ft meta)))
       \<subseteq> {figure_path output_dir sep ''3106'' None None None ''Curvature'' ft}
     \<and> set (saved (fst (median_frame sep ft meta)))
       \<subseteq> {figure_path output_dir sep ''3401'' None None None ''MedianFrame'' ft}
     \<and> saved (snd (lc_nodriftcorr sep ft meta))
         = [output_dir @ sep @ ''figs'' @ sep @ ''fig3101-2D_LC'' @ ft]"
proof -
  have loop: "fig3301_path sep ft meta m
      = (\<lambda>k. figure_path output_dir sep ''3301'' (Some (zero_padded (num_data_files meta) m))
                  (Some (zero_padded (n_int meta) (int k))) None ''ImageAndBackground'' ft)"
    by (rule ext) (simp add: fig3301_path_def figure_path_def assms)
  show ?thesis
    using saved_loop_scheme [of sep ft data meta m]
    unfolding loop saved_drift_2D_run saved_optimal_spectrum saved_source_position saved_profile
      saved_subdata saved_driftypos saved_driftywidth saved_residualBackground saved_curvature
      saved_median_frame saved_lc_nodriftcorr
    by (auto simp: figure_path_def assms)
qed

theorem figure_paths_follow_scheme_witness:
  "outputdir (example_meta 100 10 True None) = ''out'' @ ''/''
   \<and> saved (fst (subdata ''/'' ''.png'' (example_meta 100 10 True None) 1 3 7 2))
       = [''out/figs/fig3501_file007_int03_col1_subdata.png'']
   \<and> set (saved (fst (subdata ''/'' ''.png'' (example_meta 100 10 True None) 1 3 7 2)))
       \<subseteq> {figure_path ''out'' ''/'' ''3501'' (Some ''007'') (Some ''03'') (Some ''1'')
              ''subdata'' ''.png''}"
proof -
  have dir: "outputdir (example_meta 100 10 True None) = ''out'' @ ''/''"
    by (simp add: example_meta_fields)
  have pads: "zero_padded 100 7 = ''007''" "zero_padded 10 3 = ''03''" "zero_padded 2 1 = ''1''"
    by (simp_all add: eval_padding)
  have files: "saved (fst (subdata ''/'' ''.png'' (example_meta 100 10 True None) 1 3 7 2))
       = [''out/figs/fig3501_file007_int03_col1_subdata.png'']"
    by (simp add: saved_subdata example_meta_fields pads)
  from figure_paths_follow_scheme [OF dir, of "''.png''" example_data 7 3 False False 1 2 "- 200" 1000]
  have "set (saved (fst (subdata ''/'' ''.png'' (example_meta 100 10 True None) 1 3 7 2)))
       \<subseteq> {figure_path ''out'' ''/'' ''3501'' (Some ''007'') (Some ''03'') (Some ''1'')
              ''subdata'' ''.png''}"
    by (simp only: example_meta_fields pads)
  with dir files show ?thesis by blast
qed

text \<open>
  Claim C5 as stated fails for \<open>lc_nodriftcorr\<close>: the character after the tag of its
  file is a hyphen, which no path of the scheme has there.
\<close>

theorem lc_nodriftcorr_path_counterexample:
  "saved (snd (lc_nodriftcorr ''/'' ''.png'' (example_meta 100 10 True None)))
     = [''out/figs/fig3101-2D_LC.png'']
   \<and> ''out/figs/fig3101-2D_LC.png''
       \<noteq> figure_path ''out'' ''/'' ''3101'' None None None ''2D_LC'' ''.png''
   \<and> \<not> underscore_after_tag ''out'' ''/'' ''out/figs/fig3101-2D_LC.png''"
  by (simp add: saved_lc_nodriftcorr example_meta_fields figure_path_def underscore_after_tag_def)



text \<open>
  Claim C7.  When \<^verbatim>\<open>meta.time_axis\<close> is set to a value outside \<open>y\<close> and \<open>x\<close>,
  \<open>lc_nodriftcorr\<close> puts \<open>y\<close> in its place, warns, and goes on to save its figure;
  afterwards the option is \<open>y\<close> or \<open>x\<close>.  The warning is given for every such value
  but \<^verbatim>\<open>None\<close>, which is replaced in silence like a missing attribute, and it is
  printed with \<^verbatim>\<open>print\<close>: the routine has no log.
\<close>

theorem time_axis_defaulting:
  "time_axis (fst (lc_nodriftcorr sep ft meta)) \<in> {Some (PyStr ''y''), Some (PyStr ''x'')}
   \<and> (time_axis meta \<notin> {None, Some PyNone, Some (PyStr ''y''), Some (PyStr ''x'')} \<longrightarrow>
        time_axis (fst (lc_nodriftcorr sep ft meta)) = Some (PyStr ''y'')
        \<and> printed (snd (lc_nodriftcorr sep ft meta)) = [time_axis_warning]
        \<and> logged (snd (lc_nodriftcorr sep ft meta)) = [])
   \<and> (time_axis meta \<in> {None, Some PyNone} \<longrightarrow>
        time_axis (fst (lc_nodriftcorr sep ft meta)) = Some (PyStr ''y'')
        \<and> printed (snd (lc_nodriftcorr sep ft meta)) = [])
   \<and> (time_axis meta \<in> {Some (PyStr ''y''), Some (PyStr ''x'')} \<longrightarrow>
        time_axis (fst (lc_nodriftcorr sep ft meta)) = time_axis meta
        \<and> printed (snd (lc_nodriftcorr sep ft meta)) = [])
   \<and> saved (snd (lc_nodriftcorr sep ft meta))
       = [outputdir meta @ ''figs'' @ sep @ ''fig3101-2D_LC'' @ ft]"
  by (auto simp: time_axis_lc printed_lc logged_lc saved_lc_nodriftcorr)

theorem time_axis_defaulting_witness:
  "time_axis (example_meta 100 10 True (Some (PyStr ''z'')))
     \<notin> {None, Some PyNone, Some (PyStr ''y''), Some (PyStr ''x'')}
   \<and> time_axis (fst (lc_nodriftcorr ''/'' ''.png'' (example_meta 100 10 True (Some (PyStr ''z'')))))
       = Some (PyStr ''y'')
   \<and> printed (snd (lc_nodriftcorr ''/'' ''.png'' (example_meta 100 10 True (Some (PyStr ''z'')))))
       = [time_axis_warning]
   \<and> logged (snd (lc_nodriftcorr ''/'' ''.png'' (example_meta 100 10 True (Some (PyStr ''z''))))) = []
   \<and> time_axis (example_meta 100 10 True None) \<in> {None, Some PyNone}
   \<and> printed (snd (lc_nodriftcorr ''/'' ''.png'' (example_meta 100 10 True None))) = []
   \<and> time_axis (example_meta 100 10 True (Some (PyStr ''x''))) \<in> {Some (PyStr ''y''), Some (PyStr ''x'')}
   \<and> time_axis (fst (lc_nodriftcorr ''/'' ''.png'' (example_meta 100 10 True (Some (PyStr ''x'')))))
       = Some (PyStr ''x'')"
proof -
  have z: "time_axis (example_meta 100 10 True (Some (PyStr ''z'')))
     \<notin> {None, Some PyNone, Some (PyStr ''y''), Some (PyStr ''x'')}"
    by (simp add: example_meta_fields)
  have n: "time_axis (example_meta 100 10 True None) \<in> {None, Some PyNone}"
    by (simp add: example_meta_fields)
  have x: "time_axis (example_meta 100 10 True (Some (PyStr ''x''))) \<in> {Some (PyStr ''y''), Some (PyStr ''x'')}"
    by (simp add: example_meta_fields)
  have x': "time_axis (example_meta 100 10 True (Some (PyStr ''x''))) = Some (PyStr ''x'')"
    by (simp add: example_meta_fields)
  from time_axis_defaulting [of "''/''" "''.png''" "example_meta 100 10 True (Some (PyStr ''z''))"] z
  have a: "time_axis (fst (lc_nodriftcorr ''/'' ''.png'' (example_meta 100 10 True (Some (PyStr ''z'')))))
       = Some (PyStr ''y'')
   \<and> printed (snd (lc_nodriftcorr ''/'' ''.png'' (example_meta 100 10 True (Some (PyStr ''z'')))))
       = [time_axis_warning]
   \<and> logged (snd (lc_nodriftcorr ''/'' ''.png'' (example_meta 100 10 True (Some (PyStr ''z''))))) = []"
    by blast
  from time_axis_defaulting [of "''/''" "''.png''" "example_meta 100 10 True None"] n
  have b: "printed (snd (lc_nodriftcorr ''/'' ''.png'' (example_meta 100 10 True None))) = []"
    by blast
  from time_axis_defaulting [of "''/''" "''.png''" "example_meta 100 10 True (Some (PyStr ''x''))"] x
  have "time_axis (fst (lc_nodriftcorr ''/'' ''.png'' (example_meta 100 10 True (Some (PyStr ''x'')))))
       = time_axis (example_meta 100 10 True (Some (PyStr ''x'')))"
    by blast
  then have c: "time_axis (fst (lc_nodriftcorr ''/'' ''.png'' (example_meta 100 10 True (Some (PyStr ''x'')))))
       = Some (PyStr ''x'')"
    unfolding x' .
  from z n x a b c show ?thesis by blast
qed

text \<open>
  Claim C7 as stated fails for \<^verbatim>\<open>meta.time_axis = None\<close>: the value is outside the
  enumerated set and is replaced by \<open>y\<close>, but nothing is printed or logged.
\<close>

theorem time_axis_none_silent_counterexample:
  "time_axis (example_meta 100 10 True (Some PyNone)) = Some PyNone
   \<and> Some PyNone \<notin> {Some (PyStr ''y''), Some (PyStr ''x'')}
   \<and> time_axis (fst (lc_nodriftcorr ''/'' ''.png'' (example_meta 100 10 True (Some PyNone))))
       = Some (PyStr ''y'')
   \<and> printed (snd (lc_nodriftcorr ''/'' ''.png'' (example_meta 100 10 True (Some PyNone)))) = []
   \<and> logged (snd (lc_nodriftcorr ''/'' ''.png'' (example_meta 100 10 True (Some PyNone)))) = []"
  by (simp add: time_axis_lc printed_lc logged_lc example_meta_fields)

text \<open>
  Claim C8.  In every plotting routine a pause of the interactive display happens only
  directly after the figure file has been saved, and no pause happens at all when
  \<^verbatim>\<open>meta.hide_plots\<close> is true.
\<close>

theorem pause_only_after_save_and_not_when_hidden:
  "\<forall>r \<in> set (plotting_routines sep ft data meta i n m nx isgauss isFWM lo hi).
      pause_follows_save False (fst r) \<and> (hide_plots meta \<longrightarrow> pauses (fst r) = [])"
  unfolding plotting_routines_def single_figure_routines_def
  using pause_image_and_background [of sep ft data meta m] pause_lc_nodriftcorr [of sep ft meta]
    pause_drift_2D [of sep ft meta] pause_optimal_spectrum [of sep ft meta n m]
    pause_source_position [of sep ft meta m n isgauss isFWM] pause_profile [of sep ft meta n m]
    pause_subdata [of sep ft meta i n m nx] pause_driftypos [of sep ft meta]
    pause_driftywidth [of sep ft meta] pause_residualBackground [of sep ft data meta m lo hi]
    pause_curvature [of sep ft meta] pause_median_frame [of sep ft meta]
  by simp

theorem pause_only_after_save_and_not_when_hidden_witness:
  "hide_plots (example_meta 100 10 True None)
   \<and> optimal_spectrum ''/'' ''.png'' (example_meta 100 10 True None) 3 7
       \<in> set (plotting_routines ''/'' ''.png'' example_data (example_meta 100 10 True None)
                 1 3 7 2 False False (- 200) 1000)
   \<and> pause_follows_save False (fst (optimal_spectrum ''/'' ''.png'' (example_meta 100 10 True None) 3 7))
   \<and> pauses (fst (optimal_spectrum ''/'' ''.png'' (example_meta 100 10 True None) 3 7)) = []"
proof -
  have hidden: "hide_plots (example_meta 100 10 True None)"
    by (simp add: example_meta_def)
  have member: "optimal_spectrum ''/'' ''.png'' (example_meta 100 10 True None) 3 7
       \<in> set (plotting_routines ''/'' ''.png'' example_data (example_meta 100 10 True None)
                 1 3 7 2 False False (- 200) 1000)"
    by (simp add: plotting_routines_def single_figure_routines_def)
  from pause_only_after_save_and_not_when_hidden
    [of "''/''" "''.png''" example_data "example_meta 100 10 True None" 1 3 7 2 False False "- 200" 1000]
    member hidden
  show ?thesis by blast
qed

lemma pauses_shown_example:
  "pauses (fst (optimal_spectrum ''/'' ''.png'' (example_meta 100 10 False None) 3 7)) = [0.2]"
  by (simp add: optimal_spectrum_def example_meta_def Let_def zfill_number_eq pauses_append)

text \<open>
  Claim C9.  \<open>lc_nodriftcorr\<close> sets \<^verbatim>\<open>meta.vmin\<close> to 0.97 when the attribute is
  missing or \<^verbatim>\<open>None\<close>, and sets \<^verbatim>\<open>meta.vmax\<close> to 1.03 only when that attribute is
  missing or \<^verbatim>\<open>meta.vmin\<close> is \<^verbatim>\<open>None\<close>; a \<^verbatim>\<open>meta.vmax\<close> that is there with
  the value \<^verbatim>\<open>None\<close>, beside a number in \<^verbatim>\<open>meta.vmin\<close>, stays \<^verbatim>\<open>None\<close>.  Since
  \<^verbatim>\<open>meta.vmin\<close> has its default by the time the second test reads it, a
  \<^verbatim>\<open>meta.vmax\<close> that is there is never changed.
\<close>

theorem vmin_vmax_defaulting:
  "(vmin meta = None \<or> vmin meta = Some PyNone \<longrightarrow>
      vmin (fst (lc_nodriftcorr sep ft meta)) = Some (PyNum 0.97))
   \<and> (vmin meta \<noteq> None \<and> vmin meta \<noteq> Some PyNone \<longrightarrow>
        vmin (fst (lc_nodriftcorr sep ft meta)) = vmin meta)
   \<and> (vmax meta = None \<longrightarrow> vmax (fst (lc_nodriftcorr sep ft meta)) = Some (PyNum 1.03))
   \<and> (vmax (fst (lc_nodriftcorr sep ft meta)) \<noteq> vmax meta \<longrightarrow>
        vmax (fst (lc_nodriftcorr sep ft meta)) = Some (PyNum 1.03)
        \<and> (vmax meta = None \<or> vmin meta = Some PyNone))
   \<and> (vmax meta \<noteq> None \<longrightarrow> vmax (fst (lc_nodriftcorr sep ft meta)) = vmax meta)
   \<and> (vmax meta = Some PyNone \<and> vmin meta = Some (PyNum r) \<longrightarrow>
        vmax (fst (lc_nodriftcorr sep ft meta)) = Some PyNone
        \<and> vmin (fst (lc_nodriftcorr sep ft meta)) = Some (PyNum r))"
  by (auto simp: vmin_lc vmax_lc)

theorem vmin_vmax_defaulting_witness:
  "vmax ((example_meta 100 10 True None)\<lparr>vmin := Some (PyNum 0.5), vmax := Some PyNone\<rparr>) = Some PyNone
   \<and> vmin ((example_meta 100 10 True None)\<lparr>vmin := Some (PyNum 0.5), vmax := Some PyNone\<rparr>)
       = Some (PyNum 0.5)
   \<and> vmax (fst (lc_nodriftcorr ''/'' ''.png''
        ((example_meta 100 10 True None)\<lparr>vmin := Some (PyNum 0.5), vmax := Some PyNone\<rparr>)))
       = Some PyNone
   \<and> vmin (example_meta 100 10 True None) = None
   \<and> vmax (example_meta 100 10 True None) = None
   \<and> vmin (fst (lc_nodriftcorr ''/'' ''.png'' (example_meta 100 10 True None))) = Some (PyNum 0.97)
   \<and> vmax (fst (lc_nodriftcorr ''/'' ''.png'' (example_meta 100 10 True None))) = Some (PyNum 1.03)
   \<and> vmax (fst (lc_nodriftcorr ''/'' ''.png'' (example_meta 100 10 True None)))
       \<noteq> vmax (example_meta 100 10 True None)"
proof -
  let ?M = "(example_meta 100 10 True None)\<lparr>vmin := Some (PyNum 0.5), vmax := Some PyNone\<rparr>"
  have h: "vmax ?M = Some PyNone \<and> vmin ?M = Some (PyNum 0.5)" by simp
  from vmin_vmax_defaulting [of ?M "''/''" "''.png''" "0.5"] h
  have a: "vmax (fst (lc_nodriftcorr ''/'' ''.png'' ?M)) = Some PyNone" by blast
  have e: "vmin (example_meta 100 10 True None) = None \<and> vmax (example_meta 100 10 True None) = None"
    by (simp add: example_meta_fields)
  note inst = vmin_vmax_defaulting [of "example_meta 100 10 True None" "''/''" "''.png''" 0]
  from inst have "vmin (example_meta 100 10 True None) = None
      \<or> vmin (example_meta 100 10 True None) = Some PyNone \<longrightarrow>
      vmin (fst (lc_nodriftcorr ''/'' ''.png'' (example_meta 100 10 True None))) = Some (PyNum 0.97)"
    by (rule conjunct1)
  with e have b1: "vmin (fst (lc_nodriftcorr ''/'' ''.png'' (example_meta 100 10 True None)))
      = Some (PyNum 0.97)"
    by (elim impE conjE) (rule disjI1)
  from inst have "vmax (example_meta 100 10 True None) = None \<longrightarrow>
      vmax (fst (lc_nodriftcorr ''/'' ''.png'' (example_meta 100 10 True None))) = Some (PyNum 1.03)"
    by (elim conjE)
  with e have b2: "vmax (fst (lc_nodriftcorr ''/'' ''.png'' (example_meta 100 10 True None)))
      = Some (PyNum 1.03)"
    by (elim impE conjE)
  have c: "vmax (fst (lc_nodriftcorr ''/'' ''.png'' (example_meta 100 10 True None)))
       \<noteq> vmax (example_meta 100 10 True None)"
    unfolding b2 by (simp add: example_meta_fields)
  from h a e b1 b2 c show ?thesis by (intro conjI) (elim conjE, assumption)+
qed

lemma vmax_kept_when_vmin_none:
  "vmax (fst (lc_nodriftcorr ''/'' ''.png''
      ((example_meta 100 10 True None)\<lparr>vmin := Some PyNone, vmax := Some PyNone\<rparr>))) = Some PyNone"
  by (simp add: vmax_lc)



end
